theory Spec2Isabelle
  imports
    Main
    "HOL-Library.Char_ord"
    "HOL-Library.List_Lexorder"
    "HOL-Library.Product_Lexorder"
begin

section \<open>The bakery inventory and sales service\<close>

text \<open>
  The service is an Express application in front of a Postgres database. The database is
  the only state: two tables (\<open>products\<close>, \<open>sales\<close>), the view
  \<open>product_read_model\<close> over them and the SQL function \<open>get_best_sellers\<close>. Each
  HTTP handler is a function from the database (and the request) to the new database and
  the response.

  Conventions of the embedding:
  \<^item> a \<open>uuid\<close> is the natural number its sixteen bytes denote, so that the order on
    \<open>nat\<close> is the order Postgres sorts uuids by; the value drawn by
    \<open>gen_random_uuid()\<close> is an argument of the handler that inserts a row;
  \<^item> a \<open>timestamptz\<close> is an integer (a count of microseconds); the value of
    \<open>now()\<close> is an argument of the handler that needs it;
  \<^item> an SQL \<open>integer\<close> is an \<open>int\<close> and a \<open>numeric(p, 2)\<close> is an \<open>int\<close> counting
    hundredths; a request's \<open>price\<close> is taken as the hundredths the column stores. A
    statement that writes a value its column cannot hold (an \<open>integer\<close> beyond 32 bits,
    a \<open>numeric(p, 2)\<close> of more than \<open>p\<close> digits) fails and writes nothing;
  \<^item> \<open>text\<close> is a \<open>string\<close> ordered lexicographically by character code;
  \<^item> the database is always reachable: the only errors of a statement are the violations
    of the constraints the migrations declare.
\<close>

type_synonym uuid = nat
type_synonym timestamp = int
type_synonym money = int

subsection \<open>Tables (migrations 001 and the \<open>deleted_at\<close> migration)\<close>

record product_row =
  p_id :: uuid
  p_name :: string
  p_price :: money
  p_total_stock :: int
  p_image_path :: "string option"
  p_created_at :: timestamp
  p_updated_at :: timestamp
  p_deleted_at :: "timestamp option"

record sale_row =
  s_id :: uuid
  s_product_id :: uuid
  s_quantity :: int
  s_unit_price :: money
  s_total_amount :: money
  s_sold_at :: timestamp

record db =
  products :: "product_row list"
  sales :: "sale_row list"

definition empty_db :: db where
  "empty_db = \<lparr>products = [], sales = []\<rparr>"

datatype db_error =
  UniqueViolation | ForeignKeyViolation | CheckViolation | NoRows | ValueOutOfRange

text \<open>What an \<open>integer\<close> column holds: a signed 32-bit number.\<close>

definition fits_integer :: "int \<Rightarrow> bool" where
  "fits_integer n \<longleftrightarrow> - 2147483648 \<le> n \<and> n \<le> 2147483647"

text \<open>
  What a \<open>numeric(p, 2)\<close> column holds: at most \<open>p\<close> digits, two of them after the
  point; counted in hundredths, an absolute value below \<open>10 ^ p\<close>.
\<close>

definition fits_numeric :: "nat \<Rightarrow> money \<Rightarrow> bool" where
  "fits_numeric p v \<longleftrightarrow> \<bar>v\<bar> < 10 ^ p"

text \<open>
  The column types of \<open>products\<close>: \<open>price numeric(12, 2)\<close> and
  \<open>total_stock integer\<close>.
\<close>

definition product_fits :: "product_row \<Rightarrow> bool" where
  "product_fits p \<longleftrightarrow> fits_numeric 12 (p_price p) \<and> fits_integer (p_total_stock p)"

text \<open>
  The column types of \<open>sales\<close>: \<open>quantity integer\<close>, \<open>unit_price numeric(12, 2)\<close> and
  \<open>total_amount numeric(14, 2)\<close>.
\<close>

definition sale_fits :: "sale_row \<Rightarrow> bool" where
  "sale_fits s \<longleftrightarrow>
     fits_integer (s_quantity s) \<and> fits_numeric 12 (s_unit_price s) \<and>
     fits_numeric 14 (s_total_amount s)"

text \<open>The column checks of \<open>products\<close>: \<open>price >= 0\<close> and \<open>total_stock >= 0\<close>.\<close>

definition product_checks :: "product_row \<Rightarrow> bool" where
  "product_checks p \<longleftrightarrow> 0 \<le> p_price p \<and> 0 \<le> p_total_stock p"

text \<open>The column checks of \<open>sales\<close>: \<open>quantity > 0\<close> and \<open>unit_price >= 0\<close>.\<close>

definition sale_checks :: "sale_row \<Rightarrow> bool" where
  "sale_checks s \<longleftrightarrow> 0 < s_quantity s \<and> 0 \<le> s_unit_price s"

text \<open>
  \<open>insert into products\<close>: the values must fit their columns; then the primary key and
  the column checks.
\<close>

definition insert_product :: "db \<Rightarrow> product_row \<Rightarrow> db_error + db" where
  "insert_product d row =
     (if \<not> product_fits row then Inl ValueOutOfRange
      else if p_id row \<in> set (map p_id (products d)) then Inl UniqueViolation
      else if \<not> product_checks row then Inl CheckViolation
      else Inr (d\<lparr>products := products d @ [row]\<rparr>))"

text \<open>
  \<open>insert into sales (product_id, quantity, unit_price)\<close>: \<open>id\<close> and \<open>sold_at\<close> take
  their defaults, \<open>total_amount\<close> is generated as \<open>quantity * unit_price\<close>. The values,
  the generated one among them, must fit their columns. The statement returns the stored
  row (\<open>select('*').single()\<close>).
\<close>

definition insert_sale ::
  "db \<Rightarrow> uuid \<Rightarrow> timestamp \<Rightarrow> uuid \<Rightarrow> int \<Rightarrow> money \<Rightarrow> db_error + (db \<times> sale_row)" where
  "insert_sale d new_id now product_id quantity unit_price =
     (let row = \<lparr>s_id = new_id, s_product_id = product_id, s_quantity = quantity,
                 s_unit_price = unit_price, s_total_amount = quantity * unit_price,
                 s_sold_at = now\<rparr>
      in if \<not> sale_fits row then Inl ValueOutOfRange
         else if new_id \<in> set (map s_id (sales d)) then Inl UniqueViolation
         else if product_id \<notin> set (map p_id (products d)) then Inl ForeignKeyViolation
         else if \<not> sale_checks row then Inl CheckViolation
         else Inr (d\<lparr>sales := sales d @ [row]\<rparr>, row))"

text \<open>
  The constraints the migrations declare, as a predicate on a database: the column
  types, primary keys, the foreign key of \<open>sales.product_id\<close>, the column checks and
  the generated column.
\<close>

definition constraints_hold :: "db \<Rightarrow> bool" where
  "constraints_hold d \<longleftrightarrow>
     list_all product_fits (products d) \<and>
     list_all sale_fits (sales d) \<and>
     distinct (map p_id (products d)) \<and>
     distinct (map s_id (sales d)) \<and>
     list_all product_checks (products d) \<and>
     list_all sale_checks (sales d) \<and>
     list_all (\<lambda>s. s_product_id s \<in> set (map p_id (products d))) (sales d) \<and>
     list_all (\<lambda>s. s_total_amount s = s_quantity s * s_unit_price s) (sales d)"

subsection \<open>The view \<open>product_read_model\<close>\<close>

record ProductRow =
  r_id :: uuid
  r_name :: string
  r_price :: money
  r_total_stock :: int
  r_image_path :: "string option"
  r_sold_quantity :: int
  r_remaining_stock :: int

text \<open>\<open>coalesce(sum(s.quantity), 0)\<close> over the sales joined to product \<open>pid\<close>.\<close>

definition sold_quantity_of :: "db \<Rightarrow> uuid \<Rightarrow> int" where
  "sold_quantity_of d pid =
     sum_list (map s_quantity (filter (\<lambda>s. s_product_id s = pid) (sales d)))"

text \<open>
  The view after the \<open>deleted_at\<close> migration: one row per product whose \<open>deleted_at\<close> is
  null (\<open>p.id\<close> is the primary key, so each product is a group of its own), left-joined
  to its sales. The cast of the sum to \<open>integer\<close> is the identity on a sum of 32 bits.
\<close>

definition product_read_model :: "db \<Rightarrow> ProductRow list" where
  "product_read_model d =
     map (\<lambda>p. \<lparr>r_id = p_id p, r_name = p_name p, r_price = p_price p,
                r_total_stock = p_total_stock p, r_image_path = p_image_path p,
                r_sold_quantity = sold_quantity_of d (p_id p),
                r_remaining_stock = p_total_stock p - sold_quantity_of d (p_id p)\<rparr>)
         (filter (\<lambda>p. p_deleted_at p = None) (products d))"

subsection \<open>Responses\<close>

record Product =
  prod_id :: uuid
  prod_name :: string
  prod_price :: money
  prod_totalStock :: int
  prod_imagePath :: "string option"
  prod_soldQuantity :: int
  prod_remainingStock :: int

record Sale =
  sale_id :: uuid
  sale_productId :: uuid
  sale_quantity :: int
  sale_unitPrice :: money
  sale_totalAmount :: money
  sale_soldAt :: timestamp

definition toProduct :: "ProductRow \<Rightarrow> Product" where
  "toProduct row =
     \<lparr>prod_id = r_id row, prod_name = r_name row, prod_price = r_price row,
      prod_totalStock = r_total_stock row, prod_imagePath = r_image_path row,
      prod_soldQuantity = r_sold_quantity row,
      prod_remainingStock = r_remaining_stock row\<rparr>"

definition toSale :: "sale_row \<Rightarrow> Sale" where
  "toSale row =
     \<lparr>sale_id = s_id row, sale_productId = s_product_id row,
      sale_quantity = s_quantity row, sale_unitPrice = s_unit_price row,
      sale_totalAmount = s_total_amount row, sale_soldAt = s_sold_at row\<rparr>"

text \<open>
  \<open>sendError(res, status, error, message)\<close>. \<open>InvalidRequest\<close> is the 400 response; its
  message is either the first issue of the schema (\<open>SchemaIssue\<close>) or the literal
  \<open>'Not enough stock'\<close> of the sales handler (\<open>NotEnoughStock\<close>). \<open>NotFound\<close> is the 404
  response and \<open>ServerError\<close> the 500 response around a database error.
\<close>

datatype invalid_reason = SchemaIssue | NotEnoughStock

datatype error = InvalidRequest invalid_reason | NotFound | ServerError db_error

text \<open>\<open>fetchProductById\<close>: the row of the view with this id, or null.\<close>

definition fetchProductById :: "db \<Rightarrow> uuid \<Rightarrow> Product option" where
  "fetchProductById d pid =
     map_option toProduct (find (\<lambda>row. r_id row = pid) (product_read_model d))"

subsection \<open>\<open>POST /sales\<close>\<close>

record SaleCreateRequest =
  req_productId :: uuid
  req_quantity :: int

text \<open>\<open>saleCreateSchema\<close>: \<open>quantity\<close> is an integer, at least 1.\<close>

definition saleCreateSchema :: "SaleCreateRequest \<Rightarrow> bool" where
  "saleCreateSchema payload \<longleftrightarrow> 1 \<le> req_quantity payload"

text \<open>
  The handler awaits the database twice. \<open>sale_lookup\<close> is the handler up to the
  product it fetched (validation, \<open>fetchProductById\<close>, the 404); \<open>sale_commit\<close> is the
  rest, run on the database as it is when the insert arrives: the stock check against the
  fetched product, the insert with the fetched price, the response.
\<close>

definition sale_lookup :: "db \<Rightarrow> SaleCreateRequest \<Rightarrow> error + Product" where
  "sale_lookup d payload =
     (if \<not> saleCreateSchema payload then Inl (InvalidRequest SchemaIssue)
      else case fetchProductById d (req_productId payload) of
             None \<Rightarrow> Inl NotFound
           | Some product \<Rightarrow> Inr product)"

definition sale_commit ::
  "db \<Rightarrow> uuid \<Rightarrow> timestamp \<Rightarrow> SaleCreateRequest \<Rightarrow> Product \<Rightarrow> db \<times> (error + Sale)" where
  "sale_commit d new_id now payload product =
     (if req_quantity payload > prod_remainingStock product
      then (d, Inl (InvalidRequest NotEnoughStock))
      else case insert_sale d new_id now (req_productId payload) (req_quantity payload)
                  (prod_price product) of
             Inl e \<Rightarrow> (d, Inl (ServerError e))
           | Inr (d', row) \<Rightarrow> (d', Inr (toSale row)))"

text \<open>The handler run on its own, with no other request between its two steps.\<close>

definition record_sale ::
  "db \<Rightarrow> uuid \<Rightarrow> timestamp \<Rightarrow> SaleCreateRequest \<Rightarrow> db \<times> (error + Sale)" where
  "record_sale d new_id now payload =
     (case sale_lookup d payload of
        Inl e \<Rightarrow> (d, Inl e)
      | Inr product \<Rightarrow> sale_commit d new_id now payload product)"

subsection \<open>\<open>POST /products\<close>\<close>

record ProductCreateRequest =
  create_name :: string
  create_price :: money
  create_totalStock :: int
  create_imagePath :: "string option"

text \<open>
  \<open>productCreateSchema\<close>: a non-empty name, a non-negative price, a non-negative integer
  stock and, when present, a non-empty image path.
\<close>

definition productCreateSchema :: "ProductCreateRequest \<Rightarrow> bool" where
  "productCreateSchema payload \<longleftrightarrow>
     create_name payload \<noteq> [] \<and> 0 \<le> create_price payload \<and>
     0 \<le> create_totalStock payload \<and>
     (case create_imagePath payload of None \<Rightarrow> True | Some path \<Rightarrow> path \<noteq> [])"

definition create_product ::
  "db \<Rightarrow> uuid \<Rightarrow> timestamp \<Rightarrow> ProductCreateRequest \<Rightarrow> db \<times> (error + Product option)" where
  "create_product d new_id now payload =
     (if \<not> productCreateSchema payload then (d, Inl (InvalidRequest SchemaIssue))
      else case insert_product d
                  \<lparr>p_id = new_id, p_name = create_name payload,
                   p_price = create_price payload,
                   p_total_stock = create_totalStock payload,
                   p_image_path = create_imagePath payload,
                   p_created_at = now, p_updated_at = now, p_deleted_at = None\<rparr> of
             Inl e \<Rightarrow> (d, Inl (ServerError e))
           | Inr d' \<Rightarrow> (d', Inr (fetchProductById d' new_id)))"

subsection \<open>\<open>PATCH /products/:id\<close>\<close>

record ProductUpdateRequest =
  upd_name :: "string option"
  upd_price :: "money option"
  upd_totalStock :: "int option"
  upd_imagePath :: "string option"

text \<open>
  \<open>productUpdateSchema\<close>: each field is optional and checked as on creation when present;
  the refinement \<open>Object.keys(value).length > 0\<close> asks for at least one of them.
\<close>

definition productUpdateSchema :: "ProductUpdateRequest \<Rightarrow> bool" where
  "productUpdateSchema payload \<longleftrightarrow>
     (case upd_name payload of None \<Rightarrow> True | Some n \<Rightarrow> n \<noteq> []) \<and>
     (case upd_price payload of None \<Rightarrow> True | Some x \<Rightarrow> 0 \<le> x) \<and>
     (case upd_totalStock payload of None \<Rightarrow> True | Some k \<Rightarrow> 0 \<le> k) \<and>
     (case upd_imagePath payload of None \<Rightarrow> True | Some path \<Rightarrow> path \<noteq> []) \<and>
     \<not> (upd_name payload = None \<and> upd_price payload = None \<and>
        upd_totalStock payload = None \<and> upd_imagePath payload = None)"

text \<open>
  The row after \<open>update products set ...\<close> with the columns of \<open>updateBody\<close>: a column is
  set exactly when the payload has the field. The trigger \<open>set_products_updated_at\<close>
  stamps \<open>updated_at\<close>.
\<close>

definition apply_update_body :: "timestamp \<Rightarrow> ProductUpdateRequest \<Rightarrow> product_row \<Rightarrow> product_row" where
  "apply_update_body now body p =
     p\<lparr>p_name := (case upd_name body of None \<Rightarrow> p_name p | Some n \<Rightarrow> n),
       p_price := (case upd_price body of None \<Rightarrow> p_price p | Some x \<Rightarrow> x),
       p_total_stock := (case upd_totalStock body of None \<Rightarrow> p_total_stock p | Some k \<Rightarrow> k),
       p_image_path := (case upd_imagePath body of None \<Rightarrow> p_image_path p
                        | Some path \<Rightarrow> Some path),
       p_updated_at := now\<rparr>"

text \<open>
  \<open>update products ... where id = :id\<close> followed by \<open>select('id').single()\<close>: no matching
  row is the error \<open>PGRST116\<close> (\<open>NoRows\<close>); a new row whose values do not fit their
  columns, or that breaks a column check, fails the statement. The statement is on the
  table, not on the view.
\<close>

definition update_products ::
  "db \<Rightarrow> timestamp \<Rightarrow> uuid \<Rightarrow> ProductUpdateRequest \<Rightarrow> db_error + db" where
  "update_products d now pid body =
     (let rows = map (\<lambda>p. if p_id p = pid then apply_update_body now body p else p)
                     (products d)
      in if pid \<notin> set (map p_id (products d)) then Inl NoRows
         else if \<not> list_all product_fits (filter (\<lambda>p. p_id p = pid) rows)
         then Inl ValueOutOfRange
         else if \<not> list_all product_checks (filter (\<lambda>p. p_id p = pid) rows)
         then Inl CheckViolation
         else Inr (d\<lparr>products := rows\<rparr>))"

definition update_product ::
  "db \<Rightarrow> timestamp \<Rightarrow> uuid \<Rightarrow> ProductUpdateRequest \<Rightarrow> db \<times> (error + Product option)" where
  "update_product d now pid payload =
     (if \<not> productUpdateSchema payload then (d, Inl (InvalidRequest SchemaIssue))
      else case update_products d now pid payload of
             Inl NoRows \<Rightarrow> (d, Inl NotFound)
           | Inl e \<Rightarrow> (d, Inl (ServerError e))
           | Inr d' \<Rightarrow> (d', Inr (fetchProductById d' pid)))"

subsection \<open>Pagination, \<open>GET /products\<close> and \<open>GET /sales\<close>\<close>

text \<open>
  A query parameter after \<open>z.coerce.number()\<close>: a whole number, or anything else
  (a fraction, an infinity, \<open>NaN\<close>). A parameter that is not in the query is \<open>None\<close>.
\<close>

datatype query_number = Whole int | NonInteger

record pagination_query =
  q_page :: "query_number option"
  q_limit :: "query_number option"

text \<open>\<open>z.coerce.number().int().min(lo).max(hi).default(dflt)\<close>; \<open>None\<close> is a failed parse.\<close>

definition coerced_int :: "int \<Rightarrow> int option \<Rightarrow> int \<Rightarrow> query_number option \<Rightarrow> int option" where
  "coerced_int lo hi dflt v =
     (case v of
        None \<Rightarrow> Some dflt
      | Some NonInteger \<Rightarrow> None
      | Some (Whole n) \<Rightarrow>
          if lo \<le> n \<and> (case hi of None \<Rightarrow> True | Some h \<Rightarrow> n \<le> h) then Some n else None)"

definition paginationSchema :: "'a pagination_query_scheme \<Rightarrow> (int \<times> int) option" where
  "paginationSchema query =
     (case coerced_int 1 None 1 (q_page query) of
        None \<Rightarrow> None
      | Some page \<Rightarrow>
          (case coerced_int 1 (Some 100) 20 (q_limit query) of
             None \<Rightarrow> None
           | Some limit \<Rightarrow> Some (page, limit)))"

record 'a PaginatedResponse =
  items :: "'a list"
  total :: nat

text \<open>\<open>.range(from, to)\<close>: the rows at positions \<open>from\<close> to \<open>to\<close>, both included.\<close>

definition range_rows :: "int \<Rightarrow> int \<Rightarrow> 'a list \<Rightarrow> 'a list" where
  "range_rows lo hi rows = take (nat (hi - lo + 1)) (drop (nat lo) rows)"

text \<open>
  \<open>GET /products\<close>. The rows of the view are ordered by \<open>name\<close>; rows of equal name keep
  the order of the table (SQL leaves it open). \<open>count: 'exact'\<close> counts all the rows of
  the view.
\<close>

definition list_products ::
  "db \<Rightarrow> pagination_query \<Rightarrow> error + Product PaginatedResponse" where
  "list_products d query =
     (case paginationSchema query of
        None \<Rightarrow> Inl (InvalidRequest SchemaIssue)
      | Some (page, limit) \<Rightarrow>
          (let offset = (page - 1) * limit;
               rows = sort_key r_name (product_read_model d)
           in Inr \<lparr>items = map toProduct (range_rows offset (offset + limit - 1) rows),
                   total = length rows\<rparr>))"

text \<open>
  A string parameter with a format (\<open>uuid()\<close>, \<open>datetime()\<close>): the value it denotes, or
  \<open>Malformed\<close>.
\<close>

datatype 'a parsed = Malformed | WellFormed 'a


text \<open>An \<open>.optional()\<close> field: \<open>None\<close> is a failed parse, \<open>Some None\<close> an absent field.\<close>

definition optional_field :: "'a parsed option \<Rightarrow> 'a option option" where
  "optional_field v =
     (case v of None \<Rightarrow> Some None | Some Malformed \<Rightarrow> None | Some (WellFormed x) \<Rightarrow> Some (Some x))"



subsection \<open>The SQL function \<open>get_best_sellers\<close> and \<open>GET /stats/best-sellers\<close>\<close>

text \<open>The \<open>where\<close> clause: each bound applies only when it is not null.\<close>

definition in_window :: "timestamp option \<Rightarrow> timestamp option \<Rightarrow> sale_row \<Rightarrow> bool" where
  "in_window from_ts to_ts s \<longleftrightarrow>
     (case from_ts of None \<Rightarrow> True | Some lo \<Rightarrow> lo \<le> s_sold_at s) \<and>
     (case to_ts of None \<Rightarrow> True | Some hi \<Rightarrow> s_sold_at s \<le> hi)"

record filtered_sale =
  fs_sale :: sale_row
  fs_product_name :: string
  fs_current_price :: money

text \<open>\<open>filtered_sales\<close>: the sales of the window, each joined to its product.\<close>

definition filtered_sales ::
  "db \<Rightarrow> timestamp option \<Rightarrow> timestamp option \<Rightarrow> filtered_sale list" where
  "filtered_sales d from_ts to_ts =
     concat (map (\<lambda>s. map (\<lambda>p. \<lparr>fs_sale = s, fs_product_name = p_name p,
                                   fs_current_price = p_price p\<rparr>)
                           (filter (\<lambda>p. p_id p = s_product_id s) (products d)))
                 (filter (in_window from_ts to_ts) (sales d)))"

record aggregated_row =
  a_product_id :: uuid
  a_name :: string
  a_price :: money
  a_sold_quantity :: int
  a_total_revenue :: money

text \<open>\<open>aggregated\<close>: one row per \<open>product_id\<close> of \<open>filtered_sales\<close>, over its group.\<close>

definition aggregate_group :: "uuid \<Rightarrow> filtered_sale list \<Rightarrow> aggregated_row" where
  "aggregate_group pid grp =
     \<lparr>a_product_id = pid,
      a_name = Max (set (map fs_product_name grp)),
      a_price = Max (set (map fs_current_price grp)),
      a_sold_quantity = sum_list (map (\<lambda>f. s_quantity (fs_sale f)) grp),
      a_total_revenue = sum_list (map (\<lambda>f. s_total_amount (fs_sale f)) grp)\<rparr>"

definition aggregated :: "filtered_sale list \<Rightarrow> aggregated_row list" where
  "aggregated fs =
     map (\<lambda>pid. aggregate_group pid (filter (\<lambda>f. s_product_id (fs_sale f) = pid) fs))
         (remdups (map (\<lambda>f. s_product_id (fs_sale f)) fs))"

text \<open>\<open>limit 1\<close> read as a scalar subquery: the first row, or null when there is none.\<close>

definition first_row :: "'a list \<Rightarrow> 'a option" where
  "first_row rows = (case rows of [] \<Rightarrow> None | r # _ \<Rightarrow> Some r)"

text \<open>\<open>order by sold_quantity desc, product_id limit 1\<close>.\<close>

definition best_by_quantity :: "aggregated_row list \<Rightarrow> aggregated_row option" where
  "best_by_quantity agg =
     first_row (sort_key (\<lambda>a. (- a_sold_quantity a, a_product_id a)) agg)"

text \<open>\<open>order by total_revenue desc, product_id limit 1\<close>.\<close>

definition best_by_revenue :: "aggregated_row list \<Rightarrow> aggregated_row option" where
  "best_by_revenue agg =
     first_row (sort_key (\<lambda>a. (- a_total_revenue a, a_product_id a)) agg)"

record best_quantity_json =
  bq_productId :: uuid
  bq_name :: string
  bq_price :: money
  bq_soldQuantity :: int

record best_revenue_json =
  br_productId :: uuid
  br_name :: string
  br_price :: money
  br_soldQuantity :: int
  br_totalRevenue :: money

record BestSellersStats =
  bestByQuantity :: "best_quantity_json option"
  bestByRevenue :: "best_revenue_json option"

definition get_best_sellers ::
  "db \<Rightarrow> timestamp option \<Rightarrow> timestamp option \<Rightarrow> BestSellersStats" where
  "get_best_sellers d from_ts to_ts =
     (let agg = aggregated (filtered_sales d from_ts to_ts)
      in \<lparr>bestByQuantity =
             map_option (\<lambda>bq. \<lparr>bq_productId = a_product_id bq, bq_name = a_name bq,
                                bq_price = a_price bq,
                                bq_soldQuantity = a_sold_quantity bq\<rparr>)
                        (best_by_quantity agg),
           bestByRevenue =
             map_option (\<lambda>br. \<lparr>br_productId = a_product_id br, br_name = a_name br,
                                br_price = a_price br,
                                br_soldQuantity = a_sold_quantity br,
                                br_totalRevenue = a_total_revenue br\<rparr>)
                        (best_by_revenue agg)\<rparr>)"

record stats_range_query =
  sr_from :: "timestamp parsed option"
  sr_to :: "timestamp parsed option"

text \<open>
  The handler: \<open>statsRangeSchema\<close>, then the function with \<open>from ?? null\<close> and
  \<open>to ?? null\<close>. The function always returns an object, so \<open>data ?? {...}\<close> is \<open>data\<close>.
\<close>

definition best_sellers :: "db \<Rightarrow> stats_range_query \<Rightarrow> error + BestSellersStats" where
  "best_sellers d query =
     (case optional_field (sr_from query) of
        None \<Rightarrow> Inl (InvalidRequest SchemaIssue)
      | Some from_ts \<Rightarrow>
          (case optional_field (sr_to query) of
             None \<Rightarrow> Inl (InvalidRequest SchemaIssue)
           | Some to_ts \<Rightarrow> Inr (get_best_sellers d from_ts to_ts)))"

subsection \<open>Requests in sequence and requests that interleave\<close>

datatype request =
  CreateProduct uuid timestamp ProductCreateRequest
| UpdateProduct timestamp uuid ProductUpdateRequest
| RecordSale uuid timestamp SaleCreateRequest

text \<open>The database after a handler has answered one request.\<close>

fun handle :: "db \<Rightarrow> request \<Rightarrow> db" where
  "handle d (CreateProduct new_id now payload) = fst (create_product d new_id now payload)"
| "handle d (UpdateProduct now pid payload) = fst (update_product d now pid payload)"
| "handle d (RecordSale new_id now payload) = fst (record_sale d new_id now payload)"

text \<open>The database after the requests of a list, served one after the other.\<close>

definition serve :: "request list \<Rightarrow> db \<Rightarrow> db" where
  "serve rs d = foldl handle d rs"

text \<open>
  Sales of the same payload served one after the other, each with the uuid and the time
  the database gives it; the responses are kept in order.
\<close>

fun sell_each ::
  "db \<Rightarrow> (uuid \<times> timestamp) list \<Rightarrow> SaleCreateRequest \<Rightarrow> db \<times> (error + Sale) list" where
  "sell_each d [] payload = (d, [])"
| "sell_each d ((new_id, now) # rest) payload =
     (case record_sale d new_id now payload of
        (d', r) \<Rightarrow> (case sell_each d' rest payload of (d'', rs) \<Rightarrow> (d'', r # rs)))"

text \<open>
  Node runs a handler until it awaits; other handlers run meanwhile. A \<open>POST /sales\<close>
  request is therefore in one of three states: arrived, holding the product it fetched
  (awaiting the insert), or answered. \<open>advance\<close> runs request \<open>i\<close> up to its next await;
  a schedule is the order in which the requests are advanced.
\<close>

datatype sale_progress = Arrived | Fetched Product | Responded "error + Sale"

definition advance ::
  "(uuid \<times> timestamp \<times> SaleCreateRequest) list \<Rightarrow> nat \<Rightarrow> db \<times> sale_progress list
     \<Rightarrow> db \<times> sale_progress list" where
  "advance tasks i st =
     (case st of (d, ps) \<Rightarrow>
        if i < length tasks \<and> i < length ps then
          (case tasks ! i of (new_id, now, payload) \<Rightarrow>
             (case ps ! i of
                Arrived \<Rightarrow>
                  (case sale_lookup d payload of
                     Inl e \<Rightarrow> (d, ps[i := Responded (Inl e)])
                   | Inr product \<Rightarrow> (d, ps[i := Fetched product]))
              | Fetched product \<Rightarrow>
                  (case sale_commit d new_id now payload product of
                     (d', r) \<Rightarrow> (d', ps[i := Responded r]))
              | Responded r \<Rightarrow> (d, ps)))
        else (d, ps))"

definition run_schedule ::
  "(uuid \<times> timestamp \<times> SaleCreateRequest) list \<Rightarrow> nat list \<Rightarrow> db \<Rightarrow> db \<times> sale_progress list" where
  "run_schedule tasks schedule d =
     foldl (\<lambda>st i. advance tasks i st) (d, replicate (length tasks) Arrived) schedule"

subsection \<open>Example data\<close>

text \<open>Product A of the specification's examples: a stock of 5, at 2.50, never sold.\<close>

definition product_A :: product_row where
  "product_A =
     \<lparr>p_id = 1, p_name = ''A'', p_price = 250, p_total_stock = 5, p_image_path = None,
      p_created_at = 0, p_updated_at = 0, p_deleted_at = None\<rparr>"

definition shop_A :: db where
  "shop_A = \<lparr>products = [product_A], sales = []\<rparr>"

definition two_of_A :: SaleCreateRequest where
  "two_of_A = \<lparr>req_productId = 1, req_quantity = 2\<rparr>"

text \<open>Product A created through the API, three of it sold, then its stock set to 1.\<close>

definition create_A :: request where
  "create_A =
     CreateProduct 1 0 \<lparr>create_name = ''A'', create_price = 250, create_totalStock = 5,
                        create_imagePath = None\<rparr>"

definition sell_three_of_A :: request where
  "sell_three_of_A = RecordSale 10 100 \<lparr>req_productId = 1, req_quantity = 3\<rparr>"

definition stock_to_one :: ProductUpdateRequest where
  "stock_to_one =
     \<lparr>upd_name = None, upd_price = None, upd_totalStock = Some 1, upd_imagePath = None\<rparr>"

definition price_to_three :: ProductUpdateRequest where
  "price_to_three =
     \<lparr>upd_name = None, upd_price = Some 300, upd_totalStock = None, upd_imagePath = None\<rparr>"

definition no_fields :: ProductUpdateRequest where
  "no_fields =
     \<lparr>upd_name = None, upd_price = None, upd_totalStock = None, upd_imagePath = None\<rparr>"

definition shop_A_sold_three :: db where
  "shop_A_sold_three = serve [create_A, sell_three_of_A] empty_db"

text \<open>One unit of product A left, and two requests for one unit each.\<close>

definition shop_last_unit :: db where
  "shop_last_unit = \<lparr>products = [product_A\<lparr>p_total_stock := 1\<rparr>], sales = []\<rparr>"

definition one_of_A :: SaleCreateRequest where
  "one_of_A = \<lparr>req_productId = 1, req_quantity = 1\<rparr>"

definition two_buyers :: "(uuid \<times> timestamp \<times> SaleCreateRequest) list" where
  "two_buyers = [(10, 100, one_of_A), (11, 101, one_of_A)]"




text \<open>
  A bakery with three products, one of them deleted, and one sale (of the bun, at time
  100).
\<close>

definition bakery :: db where
  "bakery =
     \<lparr>products =
        [\<lparr>p_id = 2, p_name = ''Bun'', p_price = 120, p_total_stock = 10,
          p_image_path = None, p_created_at = 0, p_updated_at = 0, p_deleted_at = None\<rparr>,
         \<lparr>p_id = 1, p_name = ''Apple pie'', p_price = 450, p_total_stock = 4,
          p_image_path = None, p_created_at = 0, p_updated_at = 0, p_deleted_at = None\<rparr>,
         \<lparr>p_id = 3, p_name = ''Cake'', p_price = 900, p_total_stock = 2,
          p_image_path = None, p_created_at = 0, p_updated_at = 0, p_deleted_at = Some 50\<rparr>],
      sales =
        [\<lparr>s_id = 10, s_product_id = 2, s_quantity = 3, s_unit_price = 120,
          s_total_amount = 360, s_sold_at = 100\<rparr>]\<rparr>"

definition first_page_of_one :: pagination_query where
  "first_page_of_one = \<lparr>q_page = Some (Whole 1), q_limit = Some (Whole 1)\<rparr>"

text \<open>
  Two products that tie: three buns in one sale, three apple pies in two, at the same
  price.
\<close>

definition tied_bakery :: db where
  "tied_bakery =
     \<lparr>products =
        [\<lparr>p_id = 2, p_name = ''Bun'', p_price = 120, p_total_stock = 10,
          p_image_path = None, p_created_at = 0, p_updated_at = 0, p_deleted_at = None\<rparr>,
         \<lparr>p_id = 1, p_name = ''Apple pie'', p_price = 120, p_total_stock = 4,
          p_image_path = None, p_created_at = 0, p_updated_at = 0, p_deleted_at = None\<rparr>],
      sales =
        [\<lparr>s_id = 10, s_product_id = 2, s_quantity = 3, s_unit_price = 120,
          s_total_amount = 360, s_sold_at = 100\<rparr>,
         \<lparr>s_id = 11, s_product_id = 1, s_quantity = 1, s_unit_price = 120,
          s_total_amount = 120, s_sold_at = 110\<rparr>,
         \<lparr>s_id = 12, s_product_id = 1, s_quantity = 2, s_unit_price = 120,
          s_total_amount = 240, s_sold_at = 120\<rparr>]\<rparr>"

text \<open>
  A product at 9999999999.99 with a stock of 1000, and a request for all of it; an update
  of the price to 10000000000.00.
\<close>

definition shop_dear :: db where
  "shop_dear =
     \<lparr>products = [product_A\<lparr>p_price := 999999999999, p_total_stock := 1000\<rparr>], sales = []\<rparr>"

definition thousand_of_A :: SaleCreateRequest where
  "thousand_of_A = \<lparr>req_productId = 1, req_quantity = 1000\<rparr>"

definition price_too_long :: ProductUpdateRequest where
  "price_too_long =
     \<lparr>upd_name = None, upd_price = Some 1000000000000, upd_totalStock = None,
      upd_imagePath = None\<rparr>"

text \<open>Product A after its price has been set to 3.00.\<close>

definition shop_A_dearer :: db where
  "shop_A_dearer = fst (update_product shop_A 200 1 price_to_three)"

subsection \<open>Requests that keep the stock above the sold quantity\<close>

text \<open>
  A request keeps the stock when it is not an update that sets \<open>totalStock\<close> below what
  has been sold of the product at that moment; a list of requests keeps the stock when
  each does, on the database it is served on.
\<close>

fun keeps_stock :: "db \<Rightarrow> request \<Rightarrow> bool" where
  "keeps_stock d (UpdateProduct now pid payload) =
     (case upd_totalStock payload of None \<Rightarrow> True | Some k \<Rightarrow> sold_quantity_of d pid \<le> k)"
| "keeps_stock d (CreateProduct new_id now payload) = True"
| "keeps_stock d (RecordSale new_id now payload) = True"

fun all_keep_stock :: "db \<Rightarrow> request list \<Rightarrow> bool" where
  "all_keep_stock d [] = True"
| "all_keep_stock d (r # rs) = (keeps_stock d r \<and> all_keep_stock (handle d r) rs)"

text \<open>No product has sold more than its stock.\<close>

definition stock_covers_sales :: "db \<Rightarrow> bool" where
  "stock_covers_sales d \<longleftrightarrow>
     list_all (\<lambda>p. sold_quantity_of d (p_id p) \<le> p_total_stock p) (products d)"

subsection \<open>Pagination parameters that must be refused\<close>


subsection \<open>The catalog\<close>

text \<open>The products whose \<open>deleted_at\<close> is not set, as rows of the table.\<close>

definition live_products :: "db \<Rightarrow> product_row list" where
  "live_products d = filter (\<lambda>p. p_deleted_at p = None) (products d)"

subsection \<open>Sums over a time window\<close>

text \<open>
  The summed quantity and the summed revenue of a product over the sales whose \<open>sold_at\<close>
  is in the window.
\<close>

definition window_quantity ::
  "db \<Rightarrow> timestamp option \<Rightarrow> timestamp option \<Rightarrow> uuid \<Rightarrow> int" where
  "window_quantity d from_ts to_ts pid =
     sum_list (map s_quantity
       (filter (\<lambda>s. s_product_id s = pid) (filter (in_window from_ts to_ts) (sales d))))"

definition window_revenue ::
  "db \<Rightarrow> timestamp option \<Rightarrow> timestamp option \<Rightarrow> uuid \<Rightarrow> money" where
  "window_revenue d from_ts to_ts pid =
     sum_list (map s_total_amount
       (filter (\<lambda>s. s_product_id s = pid) (filter (in_window from_ts to_ts) (sales d))))"

subsection \<open>Update payloads whose values fit the columns\<close>

text \<open>
  A supplied \<open>price\<close> fits \<open>numeric(12, 2)\<close> and a supplied \<open>totalStock\<close> fits
  \<open>integer\<close>.
\<close>

definition payload_fits :: "ProductUpdateRequest \<Rightarrow> bool" where
  "payload_fits payload \<longleftrightarrow>
     (case upd_price payload of None \<Rightarrow> True | Some x \<Rightarrow> fits_numeric 12 x) \<and>
     (case upd_totalStock payload of None \<Rightarrow> True | Some k \<Rightarrow> fits_integer k)"

section \<open>Properties\<close>

subsection \<open>Reading the view\<close>

lemma find_SomeD: "find P xs = Some x \<Longrightarrow> P x \<and> x \<in> set xs"
  by (induction xs) (auto split: if_splits)

lemma view_rowD:
  assumes "row \<in> set (product_read_model d)"
  obtains p where "p \<in> set (products d)" "p_deleted_at p = None"
    "r_id row = p_id p" "r_name row = p_name p" "r_price row = p_price p"
    "r_total_stock row = p_total_stock p" "r_image_path row = p_image_path p"
    "r_sold_quantity row = sold_quantity_of d (p_id p)"
    "r_remaining_stock row = p_total_stock p - sold_quantity_of d (p_id p)"
  using assms by (auto simp: product_read_model_def)

lemma fetchD:
  assumes "fetchProductById d pid = Some product"
  obtains p where "p \<in> set (products d)" "p_deleted_at p = None" "p_id p = pid"
    "prod_id product = pid" "prod_name product = p_name p" "prod_price product = p_price p"
    "prod_totalStock product = p_total_stock p" "prod_imagePath product = p_image_path p"
    "prod_soldQuantity product = sold_quantity_of d pid"
    "prod_remainingStock product = p_total_stock p - sold_quantity_of d pid"
proof -
  from assms obtain row
    where r: "find (\<lambda>row. r_id row = pid) (product_read_model d) = Some row"
      and p: "product = toProduct row"
    by (auto simp: fetchProductById_def)
  from find_SomeD[OF r] have "r_id row = pid" "row \<in> set (product_read_model d)"
    by auto
  then show thesis
    using that p by (elim view_rowD) (auto simp: toProduct_def)
qed

lemma fetch_facts:
  assumes "fetchProductById d pid = Some product"
  shows "prod_id product = pid"
    and "prod_remainingStock product = prod_totalStock product - sold_quantity_of d pid"
    and "prod_soldQuantity product = sold_quantity_of d pid"
    and "pid \<in> set (map p_id (products d))"
  using assms by (auto elim!: fetchD)

lemma fetch_price:
  assumes "constraints_hold d" "fetchProductById d pid = Some product"
  shows "0 \<le> prod_price product"
  using assms
  by (auto elim!: fetchD simp: constraints_hold_def list_all_iff product_checks_def)

lemma fetch_fits:
  assumes "constraints_hold d" "fetchProductById d pid = Some product"
  shows "fits_numeric 12 (prod_price product)" and "fits_integer (prod_totalStock product)"
  using assms
  by (auto elim!: fetchD simp: constraints_hold_def list_all_iff product_fits_def)

lemma constraints_shop_A: "constraints_hold shop_A"
  by (simp add: constraints_hold_def shop_A_def product_A_def product_checks_def
      product_fits_def fits_numeric_def fits_integer_def)

lemma fetch_shop_A:
  "fetchProductById shop_A 1 =
     Some \<lparr>prod_id = 1, prod_name = ''A'', prod_price = 250, prod_totalStock = 5,
           prod_imagePath = None, prod_soldQuantity = 0, prod_remainingStock = 5\<rparr>"
  by (simp add: fetchProductById_def product_read_model_def toProduct_def shop_A_def
      product_A_def sold_quantity_of_def)

subsection \<open>The constraints are kept, the ledger only grows\<close>

lemma constraints_empty: "constraints_hold empty_db"
  by (simp add: constraints_hold_def empty_db_def)

lemma insert_product_constraints:
  assumes "constraints_hold d" "insert_product d row = Inr d'"
  shows "constraints_hold d'"
  using assms
  by (auto simp: insert_product_def constraints_hold_def list_all_iff split: if_splits)

lemma insert_sale_constraints:
  assumes "constraints_hold d" "insert_sale d new_id now pid q u = Inr (d', row)"
  shows "constraints_hold d'"
  using assms
  by (auto simp: insert_sale_def constraints_hold_def list_all_iff Let_def split: if_splits)

lemma apply_update_body_id [simp]: "p_id (apply_update_body now body p) = p_id p"
  by (simp add: apply_update_body_def)

lemma update_products_ids:
  assumes "update_products d now pid body = Inr d'"
  shows "map p_id (products d') = map p_id (products d)" and "sales d' = sales d"
  using assms
  by (auto simp: update_products_def Let_def split: if_splits)

lemma update_products_constraints:
  assumes "constraints_hold d" "update_products d now pid body = Inr d'"
  shows "constraints_hold d'"
proof -
  from assms(2) have rows: "products d' =
      map (\<lambda>p. if p_id p = pid then apply_update_body now body p else p) (products d)"
    and chk: "list_all product_checks (filter (\<lambda>p. p_id p = pid) (products d'))"
    and fit: "list_all product_fits (filter (\<lambda>p. p_id p = pid) (products d'))"
    by (auto simp: update_products_def Let_def split: if_splits)
  have "list_all (\<lambda>p. product_fits p \<and> product_checks p) (products d')"
    unfolding list_all_iff
  proof
    fix p' assume a: "p' \<in> set (products d')"
    show "product_fits p' \<and> product_checks p'"
    proof (cases "p_id p' = pid")
      case True
      with a chk fit show ?thesis by (auto simp: list_all_iff)
    next
      case False
      with a rows have "p' \<in> set (products d)" by (auto split: if_splits)
      with assms(1) show ?thesis by (auto simp: constraints_hold_def list_all_iff)
    qed
  qed
  then have "list_all product_fits (products d')" "list_all product_checks (products d')"
    by (simp_all add: list_all_iff)
  then show ?thesis
    using assms(1) update_products_ids[OF assms(2)]
    by (simp add: constraints_hold_def)
qed

lemma handle_constraints:
  assumes "constraints_hold d"
  shows "constraints_hold (handle d r)"
proof (cases r)
  case (CreateProduct new_id now payload)
  then show ?thesis
    using assms insert_product_constraints[OF assms]
    by (auto simp: create_product_def split: sum.splits)
next
  case (UpdateProduct now pid payload)
  then show ?thesis
    using assms update_products_constraints[OF assms]
    by (auto simp: update_product_def split: sum.splits db_error.splits)
next
  case (RecordSale new_id now payload)
  then show ?thesis
    using assms insert_sale_constraints[OF assms]
    by (auto simp: record_sale_def sale_commit_def split: sum.splits prod.splits)
qed

lemma serve_constraints:
  "constraints_hold d \<Longrightarrow> constraints_hold (serve rs d)"
  unfolding serve_def
  by (induction rs arbitrary: d) (simp_all add: handle_constraints)

lemma handle_sales_append: "\<exists>new. sales (handle d r) = sales d @ new"
proof (cases r)
  case (CreateProduct new_id now payload)
  then show ?thesis
    by (auto simp: create_product_def insert_product_def split: sum.splits if_splits)
next
  case (UpdateProduct now pid payload)
  then show ?thesis
    by (auto simp: update_product_def update_products_def Let_def split: sum.splits db_error.splits if_splits)
next
  case (RecordSale new_id now payload)
  then show ?thesis
    by (auto simp: record_sale_def sale_commit_def insert_sale_def Let_def split: sum.splits prod.splits if_splits)
qed

lemma serve_sales_append: "\<exists>new. sales (serve rs d) = sales d @ new"
  unfolding serve_def
proof (induction rs arbitrary: d)
  case Nil
  then show ?case by simp
next
  case (Cons r rs)
  from handle_sales_append[of d r] obtain n1 where n1: "sales (handle d r) = sales d @ n1" ..
  from Cons[of "handle d r"] obtain n2 where "sales (foldl handle (handle d r) rs) = sales (handle d r) @ n2" ..
  with n1 show ?case by simp
qed

subsection \<open>Sold quantities and the stock\<close>

lemma sold_quantity_unreferenced:
  assumes "constraints_hold d" "pid \<notin> set (map p_id (products d))"
  shows "sold_quantity_of d pid = 0"
proof -
  have "filter (\<lambda>s. s_product_id s = pid) (sales d) = []"
    using assms by (auto simp: constraints_hold_def list_all_iff filter_empty_conv)
  then show ?thesis by (simp add: sold_quantity_of_def)
qed

lemma sold_quantity_sales_eq:
  "sales d' = sales d \<Longrightarrow> sold_quantity_of d' pid = sold_quantity_of d pid"
  by (simp add: sold_quantity_of_def)

lemma sold_quantity_append:
  "sales d' = sales d @ [row] \<Longrightarrow>
   sold_quantity_of d' pid =
     sold_quantity_of d pid + (if s_product_id row = pid then s_quantity row else 0)"
  by (simp add: sold_quantity_of_def)

lemma create_product_stock:
  assumes "constraints_hold d" "stock_covers_sales d"
  shows "stock_covers_sales (fst (create_product d new_id now payload))"
proof (cases "fst (create_product d new_id now payload) = d")
  case True
  then show ?thesis using assms by simp
next
  case False
  define row where "row = \<lparr>p_id = new_id, p_name = create_name payload,
                   p_price = create_price payload,
                   p_total_stock = create_totalStock payload,
                   p_image_path = create_imagePath payload,
                   p_created_at = now, p_updated_at = now, p_deleted_at = None\<rparr>"
  from False have ok: "productCreateSchema payload"
    and fresh: "new_id \<notin> set (map p_id (products d))"
    and d': "fst (create_product d new_id now payload) = d\<lparr>products := products d @ [row]\<rparr>"
    by (auto simp: create_product_def insert_product_def row_def split: if_splits)
  have total: "0 \<le> create_totalStock payload"
    using ok by (simp add: productCreateSchema_def)
  have "sold_quantity_of d new_id = 0"
    using sold_quantity_unreferenced[OF assms(1) fresh] .
  then show ?thesis
    using assms(2) total unfolding d'
    by (simp add: stock_covers_sales_def sold_quantity_of_def row_def)
qed

lemma update_product_stock:
  assumes "stock_covers_sales d" "keeps_stock d (UpdateProduct now pid payload)"
  shows "stock_covers_sales (fst (update_product d now pid payload))"
proof (cases "fst (update_product d now pid payload) = d")
  case True
  then show ?thesis using assms by simp
next
  case False
  then have d': "fst (update_product d now pid payload) =
      d\<lparr>products := map (\<lambda>p. if p_id p = pid then apply_update_body now payload p else p)
                           (products d)\<rparr>"
    by (auto simp: update_product_def update_products_def Let_def
        split: if_splits sum.splits db_error.splits)
  show ?thesis
    using assms unfolding d'
    by (auto simp: stock_covers_sales_def list_all_iff sold_quantity_of_def
        apply_update_body_def split: option.splits)
qed

lemma record_sale_stock:
  assumes "constraints_hold d" "stock_covers_sales d"
  shows "stock_covers_sales (fst (record_sale d new_id now payload))"
proof (cases "fst (record_sale d new_id now payload) = d")
  case True
  then show ?thesis using assms by simp
next
  case False
  then obtain product where f: "fetchProductById d (req_productId payload) = Some product"
    and q: "req_quantity payload \<le> prod_remainingStock product"
    and d': "fst (record_sale d new_id now payload) =
      d\<lparr>sales := sales d @ [\<lparr>s_id = new_id, s_product_id = req_productId payload,
                  s_quantity = req_quantity payload, s_unit_price = prod_price product,
                  s_total_amount = req_quantity payload * prod_price product,
                  s_sold_at = now\<rparr>]\<rparr>"
    by (auto simp: record_sale_def sale_lookup_def sale_commit_def insert_sale_def Let_def
        split: if_splits sum.splits option.splits)
  from f obtain p0 where p0: "p0 \<in> set (products d)" "p_id p0 = req_productId payload"
    "prod_remainingStock product = p_total_stock p0 - sold_quantity_of d (req_productId payload)"
    by (elim fetchD) auto
  have uniq: "p = p0" if "p \<in> set (products d)" "p_id p = req_productId payload" for p
    using that p0 assms(1) by (auto simp: constraints_hold_def distinct_map inj_on_def)
  show ?thesis
    unfolding d' stock_covers_sales_def list_all_iff
  proof
    fix p assume "p \<in> set (products (d\<lparr>sales := sales d @ [\<lparr>s_id = new_id, s_product_id = req_productId payload,
                  s_quantity = req_quantity payload, s_unit_price = prod_price product,
                  s_total_amount = req_quantity payload * prod_price product,
                  s_sold_at = now\<rparr>]\<rparr>))"
    then have pin: "p \<in> set (products d)" by simp
    then have old: "sold_quantity_of d (p_id p) \<le> p_total_stock p"
      using assms(2) by (auto simp: stock_covers_sales_def list_all_iff)
    show "sold_quantity_of (d\<lparr>sales := sales d @ [\<lparr>s_id = new_id, s_product_id = req_productId payload,
                  s_quantity = req_quantity payload, s_unit_price = prod_price product,
                  s_total_amount = req_quantity payload * prod_price product,
                  s_sold_at = now\<rparr>]\<rparr>) (p_id p) \<le> p_total_stock p"
    proof (cases "p_id p = req_productId payload")
      case True
      with uniq[OF pin] have "p = p0" by simp
      with p0 q True show ?thesis by (simp add: sold_quantity_of_def)
    next
      case False
      with old show ?thesis by (simp add: sold_quantity_of_def)
    qed
  qed
qed

lemma serve_keeps_stock:
  assumes "constraints_hold d" "stock_covers_sales d" "all_keep_stock d rs"
  shows "stock_covers_sales (serve rs d)"
  using assms unfolding serve_def
proof (induction rs arbitrary: d)
  case Nil
  then show ?case by simp
next
  case (Cons r rs)
  have c: "constraints_hold (handle d r)"
    using Cons.prems(1) by (rule handle_constraints)
  have s: "stock_covers_sales (handle d r)"
  proof (cases r)
    case (CreateProduct new_id now payload)
    then show ?thesis using create_product_stock Cons.prems by simp
  next
    case (UpdateProduct now pid payload)
    then show ?thesis using update_product_stock[of d now pid payload] Cons.prems by simp
  next
    case (RecordSale new_id now payload)
    then show ?thesis using record_sale_stock Cons.prems by simp
  qed
  from Cons.IH[OF c s] Cons.prems(3) show ?case by simp
qed

subsection \<open>Updates\<close>

lemma apply_update_body_deleted [simp]:
  "p_deleted_at (apply_update_body now body p) = p_deleted_at p"
  by (simp add: apply_update_body_def)

lemma update_products_rows:
  assumes "update_products d now pid body = Inr d'"
  shows "products d' =
      map (\<lambda>p. if p_id p = pid then apply_update_body now body p else p) (products d)"
  using assms by (auto simp: update_products_def Let_def split: if_splits)

text \<open>The row of the view for a product, and the product as the API returns it.\<close>

lemma fetch_Some_iff:
  assumes "distinct (map p_id (products d))" "p \<in> set (products d)" "p_deleted_at p = None"
  shows "fetchProductById d (p_id p) =
     Some \<lparr>prod_id = p_id p, prod_name = p_name p, prod_price = p_price p,
           prod_totalStock = p_total_stock p, prod_imagePath = p_image_path p,
           prod_soldQuantity = sold_quantity_of d (p_id p),
           prod_remainingStock = p_total_stock p - sold_quantity_of d (p_id p)\<rparr>"
proof -
  have "\<exists>row. find (\<lambda>row. r_id row = p_id p) (product_read_model d) = Some row"
    using assms(2,3) by (cases "find (\<lambda>row. r_id row = p_id p) (product_read_model d)")
      (auto simp: find_None_iff product_read_model_def)
  then obtain product where f: "fetchProductById d (p_id p) = Some product"
    by (auto simp: fetchProductById_def)
  from f obtain p0 where p0: "p0 \<in> set (products d)" "p_id p0 = p_id p"
    "prod_id product = p_id p" "prod_name product = p_name p0" "prod_price product = p_price p0"
    "prod_totalStock product = p_total_stock p0" "prod_imagePath product = p_image_path p0"
    "prod_soldQuantity product = sold_quantity_of d (p_id p)"
    "prod_remainingStock product = p_total_stock p0 - sold_quantity_of d (p_id p)"
    by (elim fetchD) blast
  have "p0 = p"
    using assms(1,2) p0(1,2) by (auto simp: distinct_map inj_on_def)
  with p0 f show ?thesis by simp
qed

lemma update_product_accepts:
  assumes c: "constraints_hold d" and s: "productUpdateSchema payload"
    and r: "payload_fits payload"
    and p: "pid \<in> set (map p_id (products d))"
  shows "update_product d now pid payload =
     (d\<lparr>products := map (\<lambda>p. if p_id p = pid then apply_update_body now payload p else p)
                          (products d)\<rparr>,
      Inr (fetchProductById
            (d\<lparr>products := map (\<lambda>p. if p_id p = pid then apply_update_body now payload p else p)
                          (products d)\<rparr>) pid))"
proof -
  have "product_checks (apply_update_body now payload q) \<and>
      product_fits (apply_update_body now payload q)" if "q \<in> set (products d)" for q
  proof -
    have "product_checks q" "product_fits q"
      using c that by (auto simp: constraints_hold_def list_all_iff)
    then show ?thesis
      using s r by (auto simp: product_checks_def product_fits_def payload_fits_def
          apply_update_body_def productUpdateSchema_def split: option.splits)
  qed
  then have "list_all product_checks (filter (\<lambda>p. p_id p = pid)
       (map (\<lambda>p. if p_id p = pid then apply_update_body now payload p else p) (products d)))"
    and "list_all product_fits (filter (\<lambda>p. p_id p = pid)
       (map (\<lambda>p. if p_id p = pid then apply_update_body now payload p else p) (products d)))"
    by (auto simp: list_all_iff)
  then show ?thesis
    using s p by (simp add: update_product_def update_products_def Let_def)
qed

lemma update_product_too_long:
  assumes s: "productUpdateSchema payload" and r: "\<not> payload_fits payload"
    and p: "pid \<in> set (map p_id (products d))"
  shows "update_product d now pid payload = (d, Inl (ServerError ValueOutOfRange))"
proof -
  from p obtain q where q: "q \<in> set (products d)" "p_id q = pid"
    by auto
  have "\<not> product_fits (apply_update_body now payload q)"
    using r by (auto simp: product_fits_def payload_fits_def apply_update_body_def
        split: option.splits)
  moreover have "apply_update_body now payload q \<in> set (filter (\<lambda>p. p_id p = pid)
       (map (\<lambda>p. if p_id p = pid then apply_update_body now payload p else p) (products d)))"
    using q by (force simp: image_iff)
  ultimately have "\<not> list_all product_fits (filter (\<lambda>p. p_id p = pid)
       (map (\<lambda>p. if p_id p = pid then apply_update_body now payload p else p) (products d)))"
    unfolding list_all_iff by blast
  then show ?thesis
    using s p by (simp add: update_product_def update_products_def Let_def)
qed

lemma shop_A_sold_three_eq:
  "shop_A_sold_three =
     \<lparr>products = [product_A],
      sales = [\<lparr>s_id = 10, s_product_id = 1, s_quantity = 3, s_unit_price = 250,
                s_total_amount = 750, s_sold_at = 100\<rparr>]\<rparr>"
  by code_simp



lemma serve_keeps_sale:
  "row \<in> set (sales d) \<Longrightarrow> row \<in> set (sales (serve rs d))"
  using serve_sales_append[of rs d] by auto

subsection \<open>Sales served one after the other\<close>

lemma sold_quantity_nonneg:
  assumes "constraints_hold d"
  shows "0 \<le> sold_quantity_of d pid"
proof -
  have "\<forall>s \<in> set (filter (\<lambda>s. s_product_id s = pid) (sales d)). 0 \<le> s_quantity s"
    using assms by (auto simp: constraints_hold_def list_all_iff sale_checks_def)
  then show ?thesis
    unfolding sold_quantity_of_def by (intro sum_list_nonneg) auto
qed

lemma remaining_fits:
  assumes "constraints_hold d" "fetchProductById d pid = Some product"
  shows "prod_remainingStock product \<le> 2147483647"
  using fetch_facts(2)[OF assms(2)] fetch_fits(2)[OF assms] sold_quantity_nonneg[OF assms(1), of pid]
  by (simp add: fits_integer_def)

lemma record_sale_enough:
  assumes "constraints_hold d" "fetchProductById d (req_productId payload) = Some product"
    and "1 \<le> req_quantity payload" "new_id \<notin> set (map s_id (sales d))"
    and "req_quantity payload \<le> prod_remainingStock product"
    and "fits_numeric 14 (req_quantity payload * prod_price product)"
  shows "record_sale d new_id now payload =
           (d\<lparr>sales := sales d @
                [\<lparr>s_id = new_id, s_product_id = req_productId payload,
                  s_quantity = req_quantity payload, s_unit_price = prod_price product,
                  s_total_amount = req_quantity payload * prod_price product,
                  s_sold_at = now\<rparr>]\<rparr>,
            Inr \<lparr>sale_id = new_id, sale_productId = req_productId payload,
                 sale_quantity = req_quantity payload, sale_unitPrice = prod_price product,
                 sale_totalAmount = req_quantity payload * prod_price product,
                 sale_soldAt = now\<rparr>)"
proof -
  have "sale_lookup d payload = Inr product"
    using assms(2,3) by (simp add: sale_lookup_def saleCreateSchema_def)
  moreover have "fits_integer (req_quantity payload)"
    using remaining_fits[OF assms(1,2)] assms(3,5) by (simp add: fits_integer_def)
  ultimately show ?thesis
    using fetch_facts[OF assms(2)] fetch_price[OF assms(1,2)] fetch_fits(1)[OF assms(1,2)]
      assms(3,4,5,6)
    by (simp add: record_sale_def sale_commit_def insert_sale_def sale_checks_def
        sale_fits_def toSale_def Let_def)
qed

lemma record_sale_too_long:
  assumes "fetchProductById d (req_productId payload) = Some product"
    and "1 \<le> req_quantity payload"
    and "req_quantity payload \<le> prod_remainingStock product"
    and "\<not> fits_numeric 14 (req_quantity payload * prod_price product)"
  shows "record_sale d new_id now payload = (d, Inl (ServerError ValueOutOfRange))"
  using assms
  by (simp add: record_sale_def sale_lookup_def saleCreateSchema_def sale_commit_def
      insert_sale_def sale_fits_def Let_def)

lemma record_sale_short:
  assumes "fetchProductById d (req_productId payload) = Some product"
    and "1 \<le> req_quantity payload"
    and "prod_remainingStock product < req_quantity payload"
  shows "record_sale d new_id now payload = (d, Inl (InvalidRequest NotEnoughStock))"
  using assms
  by (simp add: record_sale_def sale_lookup_def saleCreateSchema_def sale_commit_def)

lemma fetch_after_sale:
  assumes c: "constraints_hold d" and f: "fetchProductById d pid = Some product"
    and s: "sales d' = sales d @ [row]" "products d' = products d"
    and r: "s_product_id row = pid"
  shows "fetchProductById d' pid =
      Some (product\<lparr>prod_soldQuantity := prod_soldQuantity product + s_quantity row,
                     prod_remainingStock := prod_remainingStock product - s_quantity row\<rparr>)"
proof -
  from f obtain p where p: "p \<in> set (products d)" "p_deleted_at p = None" "p_id p = pid"
    "prod_id product = pid" "prod_name product = p_name p" "prod_price product = p_price p"
    "prod_totalStock product = p_total_stock p" "prod_imagePath product = p_image_path p"
    "prod_soldQuantity product = sold_quantity_of d pid"
    "prod_remainingStock product = p_total_stock p - sold_quantity_of d pid"
    by (elim fetchD) blast
  have dist: "distinct (map p_id (products d'))"
    using c s(2) by (simp add: constraints_hold_def)
  have sold: "sold_quantity_of d' pid = sold_quantity_of d pid + s_quantity row"
    using sold_quantity_append[OF s(1), of pid] r by simp
  have pin: "p \<in> set (products d')"
    using p(1) s(2) by simp
  from fetch_Some_iff[OF dist pin p(2)] p sold show ?thesis
    by simp
qed

lemma sell_each_step:
  "sell_each d ((new_id, now) # rest) payload =
     (fst (sell_each (fst (record_sale d new_id now payload)) rest payload),
      snd (record_sale d new_id now payload)
        # snd (sell_each (fst (record_sale d new_id now payload)) rest payload))"
  by (simp split: prod.splits)

lemma sell_each_ones:
  assumes "constraints_hold d" "fetchProductById d pid = Some product"
    and "prod_remainingStock product = int R"
    and "distinct (map fst ids)" "set (map fst ids) \<inter> set (map s_id (sales d)) = {}"
  shows "length (filter (\<lambda>r. \<not> isl r)
            (snd (sell_each d ids \<lparr>req_productId = pid, req_quantity = 1\<rparr>)))
          = min (length ids) R \<and>
         length (filter (\<lambda>r. r = Inl (InvalidRequest NotEnoughStock))
            (snd (sell_each d ids \<lparr>req_productId = pid, req_quantity = 1\<rparr>)))
          = length ids - min (length ids) R \<and>
         (\<exists>product'.
            fetchProductById (fst (sell_each d ids \<lparr>req_productId = pid, req_quantity = 1\<rparr>)) pid
              = Some product' \<and>
            prod_totalStock product' = prod_totalStock product \<and>
            prod_remainingStock product' = max (int R - int (length ids)) 0)"
  using assms
proof (induction ids arbitrary: d product R)
  case Nil
  then show ?case by simp
next
  case (Cons a ids)
  obtain new_id now where a: "a = (new_id, now)" by (cases a)
  let ?payload = "\<lparr>req_productId = pid, req_quantity = 1\<rparr>"
  have f: "fetchProductById d (req_productId ?payload) = Some product"
    using Cons.prems(2) by simp
  have fresh: "new_id \<notin> set (map s_id (sales d))"
    using Cons.prems(5) a by auto
  show ?case
  proof (cases R)
    case 0
    have rs: "record_sale d new_id now ?payload = (d, Inl (InvalidRequest NotEnoughStock))"
      using record_sale_short[OF f] Cons.prems(3) 0 by simp
    have "distinct (map fst ids)" "set (map fst ids) \<inter> set (map s_id (sales d)) = {}"
      using Cons.prems(4,5) by auto
    from Cons.IH[OF Cons.prems(1,2,3) this] 0 rs a show ?thesis
      by (simp add: sell_each_step del: sell_each.simps)
  next
    case (Suc R')
    define row where "row = \<lparr>s_id = new_id, s_product_id = pid, s_quantity = 1,
         s_unit_price = prod_price product, s_total_amount = 1 * prod_price product,
         s_sold_at = now\<rparr>"
    define d' where "d' = d\<lparr>sales := sales d @ [row]\<rparr>"
    have "fits_numeric 14 (req_quantity ?payload * prod_price product)"
      using fetch_fits(1)[OF Cons.prems(1,2)] by (simp add: fits_numeric_def)
    then have "\<exists>sale. record_sale d new_id now ?payload = (d', Inr sale)"
      using record_sale_enough[OF Cons.prems(1) f _ fresh, of now] Cons.prems(3) Suc
      by (simp add: d'_def row_def)
    then obtain sale where rs: "record_sale d new_id now ?payload = (d', Inr sale)" ..
    have c': "constraints_hold d'"
      using handle_constraints[OF Cons.prems(1), of "RecordSale new_id now ?payload"] rs
      by simp
    have f': "fetchProductById d' pid =
        Some (product\<lparr>prod_soldQuantity := prod_soldQuantity product + s_quantity row,
                     prod_remainingStock := prod_remainingStock product - s_quantity row\<rparr>)"
      by (rule fetch_after_sale[OF Cons.prems(1,2)]) (simp_all add: d'_def row_def)
    have rem': "prod_remainingStock
         (product\<lparr>prod_soldQuantity := prod_soldQuantity product + s_quantity row,
                     prod_remainingStock := prod_remainingStock product - s_quantity row\<rparr>)
        = int R'"
      using Cons.prems(3) Suc by (simp add: row_def)
    have "distinct (map fst ids)" "set (map fst ids) \<inter> set (map s_id (sales d')) = {}"
      using Cons.prems(4,5) a by (auto simp: d'_def row_def)
    from Cons.IH[OF c' f' rem' this] Suc rs a show ?thesis
      by (simp add: sell_each_step del: sell_each.simps)
  qed
qed

lemma constraints_shop_last_unit: "constraints_hold shop_last_unit"
  by (simp add: constraints_hold_def shop_last_unit_def product_A_def product_checks_def
      product_fits_def fits_numeric_def fits_integer_def)

lemma fetch_shop_last_unit:
  "fetchProductById shop_last_unit 1 =
     Some \<lparr>prod_id = 1, prod_name = ''A'', prod_price = 250, prod_totalStock = 1,
           prod_imagePath = None, prod_soldQuantity = 0, prod_remainingStock = 1\<rparr>"
  by code_simp

subsection \<open>Pagination\<close>


subsection \<open>Best sellers\<close>

lemma first_row_sort_key:
  assumes "xs \<noteq> []"
  shows "\<exists>b. first_row (sort_key k xs) = Some b \<and> b \<in> set xs \<and> (\<forall>x \<in> set xs. k b \<le> k x)"
proof -
  have "sort_key k xs \<noteq> []"
    using assms by (metis length_0_conv length_sort)
  then obtain b rest where br: "sort_key k xs = b # rest"
    by (cases "sort_key k xs") auto
  have "sorted (map k (b # rest))"
    using sorted_sort_key[of k xs] br by simp
  then have "\<forall>x \<in> set (b # rest). k b \<le> k x"
    by auto
  moreover have "set (b # rest) = set xs"
    using set_sort[of k xs] br by simp
  ultimately show ?thesis
    using br by (auto simp: first_row_def)
qed

lemma join_one:
  assumes "distinct (map p_id ps)" "pid \<in> set (map p_id ps)"
  shows "\<exists>p. filter (\<lambda>p. p_id p = pid) ps = [p]"
  using assms
proof (induction ps)
  case Nil
  then show ?case by simp
next
  case (Cons q ps)
  show ?case
  proof (cases "p_id q = pid")
    case True
    then have "filter (\<lambda>p. p_id p = pid) ps = []"
      using Cons.prems(1) by (force simp: filter_empty_conv image_iff)
    with True show ?thesis by simp
  next
    case False
    with Cons show ?thesis by auto
  qed
qed

lemma filtered_sales_sales:
  assumes "constraints_hold d"
  shows "map fs_sale (filtered_sales d from_ts to_ts) = filter (in_window from_ts to_ts) (sales d)"
proof -
  have one: "\<exists>p. filter (\<lambda>p. p_id p = s_product_id s) (products d) = [p]"
    if "s \<in> set (sales d)" for s
    using assms that by (intro join_one) (auto simp: constraints_hold_def list_all_iff)
  have "map fs_sale (concat (map (\<lambda>s. map (\<lambda>p. \<lparr>fs_sale = s, fs_product_name = p_name p,
                                   fs_current_price = p_price p\<rparr>)
                           (filter (\<lambda>p. p_id p = s_product_id s) (products d))) ss)) = ss"
    if "set ss \<subseteq> set (sales d)" for ss
    using that
  proof (induction ss)
    case Nil
    then show ?case by simp
  next
    case (Cons s ss)
    from one[of s] Cons.prems obtain p
      where "filter (\<lambda>p. p_id p = s_product_id s) (products d) = [p]" by auto
    with Cons show ?case by simp
  qed
  from this[of "filter (in_window from_ts to_ts) (sales d)"] show ?thesis
    by (simp add: filtered_sales_def)
qed

lemma group_quantity:
  "sum_list (map (\<lambda>f. s_quantity (fs_sale f)) (filter (\<lambda>f. s_product_id (fs_sale f) = pid) fs))
   = sum_list (map s_quantity (filter (\<lambda>s. s_product_id s = pid) (map fs_sale fs)))"
  by (induction fs) auto

lemma group_revenue:
  "sum_list (map (\<lambda>f. s_total_amount (fs_sale f)) (filter (\<lambda>f. s_product_id (fs_sale f) = pid) fs))
   = sum_list (map s_total_amount (filter (\<lambda>s. s_product_id s = pid) (map fs_sale fs)))"
  by (induction fs) auto

lemma aggregated_rows:
  assumes "constraints_hold d"
  shows "a \<in> set (aggregated (filtered_sales d from_ts to_ts)) \<longleftrightarrow>
     (\<exists>s \<in> set (sales d). in_window from_ts to_ts s \<and>
        a = aggregate_group (s_product_id s)
              (filter (\<lambda>f. s_product_id (fs_sale f) = s_product_id s)
                 (filtered_sales d from_ts to_ts)))"
proof -
  have "set (map (\<lambda>f. s_product_id (fs_sale f)) (filtered_sales d from_ts to_ts))
      = s_product_id ` set (map fs_sale (filtered_sales d from_ts to_ts))"
    by (simp add: image_image)
  also have "\<dots> = s_product_id ` {s \<in> set (sales d). in_window from_ts to_ts s}"
    by (simp add: filtered_sales_sales[OF assms])
  finally have ids: "set (map (\<lambda>f. s_product_id (fs_sale f)) (filtered_sales d from_ts to_ts))
      = s_product_id ` {s \<in> set (sales d). in_window from_ts to_ts s}" .
  show ?thesis
    unfolding aggregated_def set_map set_remdups
    using ids by (auto simp: image_iff)
qed

lemma aggregate_group_sums:
  assumes "constraints_hold d"
  shows "a_product_id (aggregate_group pid
            (filter (\<lambda>f. s_product_id (fs_sale f) = pid) (filtered_sales d from_ts to_ts))) = pid"
    and "a_sold_quantity (aggregate_group pid
            (filter (\<lambda>f. s_product_id (fs_sale f) = pid) (filtered_sales d from_ts to_ts)))
          = window_quantity d from_ts to_ts pid"
    and "a_total_revenue (aggregate_group pid
            (filter (\<lambda>f. s_product_id (fs_sale f) = pid) (filtered_sales d from_ts to_ts)))
          = window_revenue d from_ts to_ts pid"
  by (simp_all add: aggregate_group_def group_quantity group_revenue
      filtered_sales_sales[OF assms] window_quantity_def window_revenue_def)

lemma constraints_tied_bakery: "constraints_hold tied_bakery"
  by (simp add: constraints_hold_def tied_bakery_def product_checks_def sale_checks_def
      product_fits_def sale_fits_def fits_numeric_def fits_integer_def)

subsection \<open>Requests advanced from await to await\<close>

lemma advance_sales_append: "\<exists>new. sales (fst (advance tasks i st)) = sales (fst st) @ new"
  by (cases st)
    (auto simp: advance_def sale_commit_def insert_sale_def Let_def
      split: prod.splits sale_progress.splits sum.splits if_splits)

lemma run_schedule_keeps_sale:
  assumes "row \<in> set (sales d)"
  shows "row \<in> set (sales (fst (run_schedule tasks schedule d)))"
proof -
  have "row \<in> set (sales (fst (foldl (\<lambda>st i. advance tasks i st) st schedule)))"
    if "row \<in> set (sales (fst st))" for st
    using that
  proof (induction schedule arbitrary: st)
    case Nil
    then show ?case by simp
  next
    case (Cons i schedule)
    from advance_sales_append[of tasks i st] Cons.prems
    have "row \<in> set (sales (fst (advance tasks i st)))" by auto
    from Cons.IH[OF this] show ?case by simp
  qed
  from this[of "(d, replicate (length tasks) Arrived)"] assms show ?thesis
    by (simp add: run_schedule_def)
qed

text \<open>A request advanced twice with nothing in between is the handler run on its own.\<close>

lemma advance_twice:
  "run_schedule [(new_id, now, payload)] [0, 0] d =
     (fst (record_sale d new_id now payload),
      [Responded (snd (record_sale d new_id now payload))])"
  by (simp add: run_schedule_def advance_def record_sale_def
      split: sum.splits prod.splits)

subsection \<open>The stock check of \<open>POST /sales\<close>\<close>

text \<open>
  C2 (amended). The handler served with no other request between its lookup and its
  insert, on a database that satisfies its constraints, for a product the view shows, a
  quantity of at least 1 and an unused sale id: the remaining stock the handler compares
  with is the total stock minus the sum of the product's sales; the response is the 400
  \<open>'Not enough stock'\<close> exactly when the quantity exceeds it, and then the database is
  unchanged; otherwise the sale is appended and returned when \<open>quantity * price\<close> fits
  the column \<open>total_amount numeric(14, 2)\<close>, and when it does not the response is the
  500 of the failed insert and the database is unchanged. On product A with a stock of 5,
  three sales of 2 in sequence: the first two are stored (the remaining stock is 3, then
  1), the third is answered \<open>'Not enough stock'\<close> and the remaining stock stays 1.
\<close>

theorem record_sale_stock_check:
  "(constraints_hold d \<and> fetchProductById d (req_productId payload) = Some product \<and>
    1 \<le> req_quantity payload \<and> new_id \<notin> set (map s_id (sales d)) \<longrightarrow>
      prod_remainingStock product =
        prod_totalStock product - sold_quantity_of d (req_productId payload) \<and>
      (snd (record_sale d new_id now payload) = Inl (InvalidRequest NotEnoughStock)
         \<longleftrightarrow> req_quantity payload > prod_remainingStock product) \<and>
      (req_quantity payload > prod_remainingStock product \<longrightarrow>
         fst (record_sale d new_id now payload) = d) \<and>
      (req_quantity payload \<le> prod_remainingStock product \<and>
       fits_numeric 14 (req_quantity payload * prod_price product) \<longrightarrow>
         record_sale d new_id now payload =
           (d\<lparr>sales := sales d @
                [\<lparr>s_id = new_id, s_product_id = req_productId payload,
                  s_quantity = req_quantity payload, s_unit_price = prod_price product,
                  s_total_amount = req_quantity payload * prod_price product,
                  s_sold_at = now\<rparr>]\<rparr>,
            Inr \<lparr>sale_id = new_id, sale_productId = req_productId payload,
                 sale_quantity = req_quantity payload, sale_unitPrice = prod_price product,
                 sale_totalAmount = req_quantity payload * prod_price product,
                 sale_soldAt = now\<rparr>)) \<and>
      (req_quantity payload \<le> prod_remainingStock product \<and>
       \<not> fits_numeric 14 (req_quantity payload * prod_price product) \<longrightarrow>
         record_sale d new_id now payload = (d, Inl (ServerError ValueOutOfRange)))) \<and>
   snd (sell_each shop_A [(10, 100), (11, 101), (12, 102)] two_of_A) =
     [Inr \<lparr>sale_id = 10, sale_productId = 1, sale_quantity = 2, sale_unitPrice = 250,
           sale_totalAmount = 500, sale_soldAt = 100\<rparr>,
      Inr \<lparr>sale_id = 11, sale_productId = 1, sale_quantity = 2, sale_unitPrice = 250,
           sale_totalAmount = 500, sale_soldAt = 101\<rparr>,
      Inl (InvalidRequest NotEnoughStock)] \<and>
   map r_remaining_stock
     (product_read_model (fst (sell_each shop_A [(10, 100)] two_of_A))) = [3] \<and>
   map r_remaining_stock
     (product_read_model (fst (sell_each shop_A [(10, 100), (11, 101)] two_of_A))) = [1] \<and>
   map r_remaining_stock
     (product_read_model (fst (sell_each shop_A [(10, 100), (11, 101), (12, 102)] two_of_A)))
     = [1]"
proof (intro conjI impI)
  assume h: "constraints_hold d \<and> fetchProductById d (req_productId payload) = Some product \<and>
    1 \<le> req_quantity payload \<and> new_id \<notin> set (map s_id (sales d))"
  then have c: "constraints_hold d"
    and f: "fetchProductById d (req_productId payload) = Some product"
    and q: "1 \<le> req_quantity payload" and fresh: "new_id \<notin> set (map s_id (sales d))"
    by simp_all
  note ff = fetch_facts[OF f]
  have lookup: "sale_lookup d payload = Inr product"
    using f q by (simp add: sale_lookup_def saleCreateSchema_def)
  show "prod_remainingStock product =
        prod_totalStock product - sold_quantity_of d (req_productId payload)"
    using ff by simp
  show "snd (record_sale d new_id now payload) = Inl (InvalidRequest NotEnoughStock)
         \<longleftrightarrow> req_quantity payload > prod_remainingStock product"
    using lookup
    by (auto simp: record_sale_def sale_commit_def split: sum.splits prod.splits)
  {
    assume "req_quantity payload > prod_remainingStock product"
    then show "fst (record_sale d new_id now payload) = d"
      using lookup by (simp add: record_sale_def sale_commit_def)
  }
  {
    assume "req_quantity payload \<le> prod_remainingStock product \<and>
       fits_numeric 14 (req_quantity payload * prod_price product)"
    then show "record_sale d new_id now payload =
           (d\<lparr>sales := sales d @
                [\<lparr>s_id = new_id, s_product_id = req_productId payload,
                  s_quantity = req_quantity payload, s_unit_price = prod_price product,
                  s_total_amount = req_quantity payload * prod_price product,
                  s_sold_at = now\<rparr>]\<rparr>,
            Inr \<lparr>sale_id = new_id, sale_productId = req_productId payload,
                 sale_quantity = req_quantity payload, sale_unitPrice = prod_price product,
                 sale_totalAmount = req_quantity payload * prod_price product,
                 sale_soldAt = now\<rparr>)"
      using record_sale_enough[OF c f q fresh, of now] by simp
  }
  {
    assume "req_quantity payload \<le> prod_remainingStock product \<and>
       \<not> fits_numeric 14 (req_quantity payload * prod_price product)"
    then show "record_sale d new_id now payload = (d, Inl (ServerError ValueOutOfRange))"
      using record_sale_too_long[OF f q, of new_id now] by simp
  }
qed code_simp+

theorem record_sale_stock_check_witness:
  "constraints_hold shop_A \<and>
   fetchProductById shop_A (req_productId two_of_A) =
     Some \<lparr>prod_id = 1, prod_name = ''A'', prod_price = 250, prod_totalStock = 5,
           prod_imagePath = None, prod_soldQuantity = 0, prod_remainingStock = 5\<rparr> \<and>
   1 \<le> req_quantity two_of_A \<and> 10 \<notin> set (map s_id (sales shop_A)) \<and>
   snd (record_sale shop_A 10 100 two_of_A) \<noteq> Inl (InvalidRequest NotEnoughStock) \<and>
   record_sale shop_A 10 100 two_of_A =
     (shop_A\<lparr>sales := [\<lparr>s_id = 10, s_product_id = 1, s_quantity = 2, s_unit_price = 250,
                         s_total_amount = 500, s_sold_at = 100\<rparr>]\<rparr>,
      Inr \<lparr>sale_id = 10, sale_productId = 1, sale_quantity = 2, sale_unitPrice = 250,
           sale_totalAmount = 500, sale_soldAt = 100\<rparr>)"
proof -
  have h1: "constraints_hold shop_A"
    by (rule constraints_shop_A)
  have h2: "fetchProductById shop_A (req_productId two_of_A) =
     Some \<lparr>prod_id = 1, prod_name = ''A'', prod_price = 250, prod_totalStock = 5,
           prod_imagePath = None, prod_soldQuantity = 0, prod_remainingStock = 5\<rparr>"
    using fetch_shop_A by (simp add: two_of_A_def)
  have h3: "1 \<le> req_quantity two_of_A"
    by (simp add: two_of_A_def)
  have h4: "10 \<notin> set (map s_id (sales shop_A))"
    by (simp add: shop_A_def)
  from record_sale_stock_check[of shop_A two_of_A _ 10 100] h1 h2 h3 h4
  show ?thesis
    by (simp add: two_of_A_def shop_A_def fits_numeric_def)
qed

text \<open>
  C2 as stated fails. A product at 9999999999.99 with a stock of 1000: a sale of 1000 is
  within the stock, but \<open>quantity * price\<close> does not fit \<open>total_amount\<close>; the insert
  fails, the response is a 500 and nothing is appended. And with one unit of product A
  left, a request that looked the product up before another sale was stored is admitted
  although the ledger then leaves a remaining stock of 0.
\<close>

theorem record_sale_stock_check_counterexample:
  "fetchProductById shop_dear 1 =
     Some \<lparr>prod_id = 1, prod_name = ''A'', prod_price = 999999999999,
           prod_totalStock = 1000, prod_imagePath = None, prod_soldQuantity = 0,
           prod_remainingStock = 1000\<rparr> \<and>
   record_sale shop_dear 10 100 thousand_of_A =
     (shop_dear, Inl (ServerError ValueOutOfRange)) \<and>
   sale_lookup shop_last_unit one_of_A =
     Inr \<lparr>prod_id = 1, prod_name = ''A'', prod_price = 250, prod_totalStock = 1,
          prod_imagePath = None, prod_soldQuantity = 0, prod_remainingStock = 1\<rparr> \<and>
   map r_remaining_stock
     (product_read_model (fst (record_sale shop_last_unit 10 100 one_of_A))) = [0] \<and>
   snd (sale_commit (fst (record_sale shop_last_unit 10 100 one_of_A)) 11 101 one_of_A
          \<lparr>prod_id = 1, prod_name = ''A'', prod_price = 250, prod_totalStock = 1,
           prod_imagePath = None, prod_soldQuantity = 0, prod_remainingStock = 1\<rparr>) =
     Inr \<lparr>sale_id = 11, sale_productId = 1, sale_quantity = 1, sale_unitPrice = 250,
          sale_totalAmount = 250, sale_soldAt = 101\<rparr>"
  by (intro conjI; code_simp)

subsection \<open>The stock invariant\<close>

text \<open>
  C1 (amended). In every state reached from the empty database by \<open>POST /products\<close>,
  \<open>PATCH /products/:id\<close> and \<open>POST /sales\<close> requests served one after the other (no
  request runs between the lookup and the insert of a sale), every row of the read model
  has \<open>remaining_stock = total_stock - sum of the quantities of its sales\<close>. The
  remaining stock is never negative as long as no update has set \<open>totalStock\<close> below the
  quantity sold of the product at that moment: the update handler does not look at the
  sales.
\<close>

theorem stock_invariant:
  "(\<forall>row \<in> set (product_read_model (serve rs empty_db)).
      r_sold_quantity row = sold_quantity_of (serve rs empty_db) (r_id row) \<and>
      r_remaining_stock row = r_total_stock row - sold_quantity_of (serve rs empty_db) (r_id row)) \<and>
   (all_keep_stock empty_db rs \<longrightarrow>
      (\<forall>row \<in> set (product_read_model (serve rs empty_db)). 0 \<le> r_remaining_stock row))"
proof (intro conjI impI ballI)
  fix row assume "row \<in> set (product_read_model (serve rs empty_db))"
  then show "r_sold_quantity row = sold_quantity_of (serve rs empty_db) (r_id row)"
    and "r_remaining_stock row = r_total_stock row - sold_quantity_of (serve rs empty_db) (r_id row)"
    by (auto elim!: view_rowD)
next
  fix row assume k: "all_keep_stock empty_db rs"
    and r: "row \<in> set (product_read_model (serve rs empty_db))"
  have "stock_covers_sales empty_db"
    by (simp add: stock_covers_sales_def empty_db_def)
  from serve_keeps_stock[OF constraints_empty this k]
  have "stock_covers_sales (serve rs empty_db)" .
  with r show "0 \<le> r_remaining_stock row"
    by (auto elim!: view_rowD simp: stock_covers_sales_def list_all_iff)
qed

theorem stock_invariant_witness:
  "all_keep_stock empty_db [create_A, sell_three_of_A] \<and>
   map r_id (product_read_model (serve [create_A, sell_three_of_A] empty_db)) = [1] \<and>
   list_all (\<lambda>row. 0 \<le> r_remaining_stock row \<and>
               r_remaining_stock row =
                 r_total_stock row
                   - sold_quantity_of (serve [create_A, sell_three_of_A] empty_db) (r_id row))
     (product_read_model (serve [create_A, sell_three_of_A] empty_db))"
proof -
  have k: "all_keep_stock empty_db [create_A, sell_three_of_A]"
    by (simp add: create_A_def sell_three_of_A_def)
  have v: "map r_id (product_read_model (serve [create_A, sell_three_of_A] empty_db)) = [1]"
    by code_simp
  from stock_invariant[of "[create_A, sell_three_of_A]"] k
  have "list_all (\<lambda>row. 0 \<le> r_remaining_stock row \<and>
               r_remaining_stock row =
                 r_total_stock row
                   - sold_quantity_of (serve [create_A, sell_three_of_A] empty_db) (r_id row))
     (product_read_model (serve [create_A, sell_three_of_A] empty_db))"
    unfolding list_all_iff by blast
  with k v show ?thesis
    by blast
qed

text \<open>
  C1 as stated fails: product A is created with a stock of 5, three are sold, and the
  stock is then set to 1; each request succeeds, one after the other, and the read model
  shows a remaining stock of -2.
\<close>

theorem stock_invariant_counterexample:
  "map r_remaining_stock
     (product_read_model
        (serve [create_A, sell_three_of_A, UpdateProduct 200 1 stock_to_one] empty_db)) = [-2]"
  by code_simp

subsection \<open>Setting the stock below the sold quantity\<close>




subsection \<open>Partial updates\<close>

text \<open>
  C9. After \<open>PATCH /products/:id\<close>, whatever the payload: the table has the same
  products in the same places and the sales are untouched; a column whose field is not
  in the payload keeps its value in every row, and a row of another product is unchanged.
  When the database satisfies its constraints, the schema accepts the payload and the
  supplied values fit their columns, the row of the product has, for each field of the
  payload, the value supplied. When the schema accepts the payload and a supplied value
  does not fit its column, an update of a product of the table is answered with the 500
  of the failed statement and the database is unchanged. A payload with no field is
  answered with the 400 of the schema and the database is unchanged.
\<close>

theorem update_applies_supplied_fields:
  "length (products (fst (update_product d now pid payload))) = length (products d) \<and>
   sales (fst (update_product d now pid payload)) = sales d \<and>
   (\<forall>i < length (products d).
      p_id (products (fst (update_product d now pid payload)) ! i) = p_id (products d ! i) \<and>
      (upd_name payload = None \<longrightarrow>
         p_name (products (fst (update_product d now pid payload)) ! i) = p_name (products d ! i)) \<and>
      (upd_price payload = None \<longrightarrow>
         p_price (products (fst (update_product d now pid payload)) ! i) = p_price (products d ! i)) \<and>
      (upd_totalStock payload = None \<longrightarrow>
         p_total_stock (products (fst (update_product d now pid payload)) ! i)
           = p_total_stock (products d ! i)) \<and>
      (upd_imagePath payload = None \<longrightarrow>
         p_image_path (products (fst (update_product d now pid payload)) ! i)
           = p_image_path (products d ! i)) \<and>
      (p_id (products d ! i) \<noteq> pid \<longrightarrow>
         products (fst (update_product d now pid payload)) ! i = products d ! i) \<and>
      (constraints_hold d \<and> productUpdateSchema payload \<and> payload_fits payload \<and>
       p_id (products d ! i) = pid \<longrightarrow>
         (\<forall>n. upd_name payload = Some n \<longrightarrow>
            p_name (products (fst (update_product d now pid payload)) ! i) = n) \<and>
         (\<forall>x. upd_price payload = Some x \<longrightarrow>
            p_price (products (fst (update_product d now pid payload)) ! i) = x) \<and>
         (\<forall>k. upd_totalStock payload = Some k \<longrightarrow>
            p_total_stock (products (fst (update_product d now pid payload)) ! i) = k) \<and>
         (\<forall>path. upd_imagePath payload = Some path \<longrightarrow>
            p_image_path (products (fst (update_product d now pid payload)) ! i) = Some path))) \<and>
   (productUpdateSchema payload \<and> \<not> payload_fits payload \<and>
    pid \<in> set (map p_id (products d)) \<longrightarrow>
      update_product d now pid payload = (d, Inl (ServerError ValueOutOfRange))) \<and>
   (upd_name payload = None \<and> upd_price payload = None \<and> upd_totalStock payload = None \<and>
    upd_imagePath payload = None \<longrightarrow>
      update_product d now pid payload = (d, Inl (InvalidRequest SchemaIssue)))"
proof -
  let ?upd = "map (\<lambda>p. if p_id p = pid then apply_update_body now payload p else p) (products d)"
  have cases: "fst (update_product d now pid payload) = d \<or>
      fst (update_product d now pid payload) = d\<lparr>products := ?upd\<rparr>"
    by (auto simp: update_product_def update_products_def Let_def
        split: sum.splits db_error.splits if_splits)
  have accepted: "fst (update_product d now pid payload) = d\<lparr>products := ?upd\<rparr>"
    if "constraints_hold d" "productUpdateSchema payload" "payload_fits payload"
      "pid \<in> set (map p_id (products d))"
    using update_product_accepts[OF that, of now] by simp
  have frame: "length (products (fst (update_product d now pid payload))) = length (products d) \<and>
     sales (fst (update_product d now pid payload)) = sales d"
    using cases by auto
  have rows: "p_id (products (fst (update_product d now pid payload)) ! i) = p_id (products d ! i) \<and>
      (upd_name payload = None \<longrightarrow>
         p_name (products (fst (update_product d now pid payload)) ! i) = p_name (products d ! i)) \<and>
      (upd_price payload = None \<longrightarrow>
         p_price (products (fst (update_product d now pid payload)) ! i) = p_price (products d ! i)) \<and>
      (upd_totalStock payload = None \<longrightarrow>
         p_total_stock (products (fst (update_product d now pid payload)) ! i)
           = p_total_stock (products d ! i)) \<and>
      (upd_imagePath payload = None \<longrightarrow>
         p_image_path (products (fst (update_product d now pid payload)) ! i)
           = p_image_path (products d ! i)) \<and>
      (p_id (products d ! i) \<noteq> pid \<longrightarrow>
         products (fst (update_product d now pid payload)) ! i = products d ! i)"
    if "i < length (products d)" for i
    using cases that by (auto simp: apply_update_body_def)
  have supplied: "(\<forall>n. upd_name payload = Some n \<longrightarrow>
            p_name (products (fst (update_product d now pid payload)) ! i) = n) \<and>
         (\<forall>x. upd_price payload = Some x \<longrightarrow>
            p_price (products (fst (update_product d now pid payload)) ! i) = x) \<and>
         (\<forall>k. upd_totalStock payload = Some k \<longrightarrow>
            p_total_stock (products (fst (update_product d now pid payload)) ! i) = k) \<and>
         (\<forall>path. upd_imagePath payload = Some path \<longrightarrow>
            p_image_path (products (fst (update_product d now pid payload)) ! i) = Some path)"
    if "i < length (products d)" "constraints_hold d" "productUpdateSchema payload"
      "payload_fits payload" "p_id (products d ! i) = pid" for i
  proof -
    have "pid \<in> set (map p_id (products d))"
      using that(1,5) nth_mem[of i "products d"] by force
    from accepted[OF that(2,3,4) this] that(1,5) show ?thesis
      by (simp add: apply_update_body_def)
  qed
  have none: "update_product d now pid payload = (d, Inl (InvalidRequest SchemaIssue))"
    if "upd_name payload = None \<and> upd_price payload = None \<and> upd_totalStock payload = None \<and>
    upd_imagePath payload = None"
    using that by (simp add: update_product_def productUpdateSchema_def)
  have long: "update_product d now pid payload = (d, Inl (ServerError ValueOutOfRange))"
    if "productUpdateSchema payload \<and> \<not> payload_fits payload \<and>
      pid \<in> set (map p_id (products d))"
    using that by (intro update_product_too_long) simp_all
  from frame rows supplied long none show ?thesis
    by blast
qed

theorem update_applies_supplied_fields_witness:
  "constraints_hold shop_A \<and> productUpdateSchema price_to_three \<and>
   payload_fits price_to_three \<and>
   productUpdateSchema price_too_long \<and> \<not> payload_fits price_too_long \<and>
   update_product shop_A 200 1 price_too_long = (shop_A, Inl (ServerError ValueOutOfRange)) \<and>
   products (fst (update_product shop_A 200 1 price_to_three)) =
     [product_A\<lparr>p_price := 300, p_updated_at := 200\<rparr>] \<and>
   p_name (products (fst (update_product shop_A 200 1 price_to_three)) ! 0) = ''A'' \<and>
   p_price (products (fst (update_product shop_A 200 1 price_to_three)) ! 0) = 300 \<and>
   p_total_stock (products (fst (update_product shop_A 200 1 price_to_three)) ! 0) = 5 \<and>
   p_image_path (products (fst (update_product shop_A 200 1 price_to_three)) ! 0) = None \<and>
   update_product shop_A 200 1 no_fields = (shop_A, Inl (InvalidRequest SchemaIssue))"
proof -
  have s: "productUpdateSchema price_to_three"
    by (simp add: productUpdateSchema_def price_to_three_def)
  have e: "products (fst (update_product shop_A 200 1 price_to_three)) =
     [product_A\<lparr>p_price := 300, p_updated_at := 200\<rparr>]"
    by code_simp
  have i: "0 < length (products shop_A)" "p_id (products shop_A ! 0) = 1"
    by (simp_all add: shop_A_def product_A_def)
  have f: "upd_name price_to_three = None" "upd_price price_to_three = Some 300"
    "upd_totalStock price_to_three = None" "upd_imagePath price_to_three = None"
    by (simp_all add: price_to_three_def)
  have old: "p_name (products shop_A ! 0) = ''A''" "p_total_stock (products shop_A ! 0) = 5"
    "p_image_path (products shop_A ! 0) = None"
    by (simp_all add: shop_A_def product_A_def)
  have n: "upd_name no_fields = None \<and> upd_price no_fields = None \<and>
     upd_totalStock no_fields = None \<and> upd_imagePath no_fields = None"
    by (simp add: no_fields_def)
  have r: "payload_fits price_to_three"
    by (simp add: payload_fits_def price_to_three_def fits_numeric_def)
  have l: "productUpdateSchema price_too_long" "\<not> payload_fits price_too_long"
    "1 \<in> set (map p_id (products shop_A))"
    by (simp_all add: productUpdateSchema_def payload_fits_def price_too_long_def
        fits_numeric_def shop_A_def product_A_def)
  from update_applies_supplied_fields[of shop_A 200 1 price_too_long] l
  have c: "update_product shop_A 200 1 price_too_long
      = (shop_A, Inl (ServerError ValueOutOfRange))"
    by blast
  from update_applies_supplied_fields[of shop_A 200 1 price_to_three] i f old s r
    constraints_shop_A
  have a: "p_name (products (fst (update_product shop_A 200 1 price_to_three)) ! 0) = ''A'' \<and>
   p_price (products (fst (update_product shop_A 200 1 price_to_three)) ! 0) = 300 \<and>
   p_total_stock (products (fst (update_product shop_A 200 1 price_to_three)) ! 0) = 5 \<and>
   p_image_path (products (fst (update_product shop_A 200 1 price_to_three)) ! 0) = None"
    by (metis (no_types, lifting))
  from update_applies_supplied_fields[of shop_A 200 1 no_fields] n
  have b: "update_product shop_A 200 1 no_fields = (shop_A, Inl (InvalidRequest SchemaIssue))"
    by blast
  from a b c s r l(1,2) e constraints_shop_A show ?thesis
    by blast
qed

subsection \<open>The price of a sale\<close>

text \<open>
  C6 (amended). The handler reads the product's price when it looks the product up and
  inserts the sale in a later database call. When the lookup, on a database that
  satisfies its constraints, returns a product and the insert, on whatever the database
  is by then, is answered with a sale: the row appended to \<open>sales\<close> is the sale returned,
  for the product and the quantity of the request; its \<open>unit_price\<close> is the price the
  referenced product had in the database of the lookup; its \<open>total_amount\<close> is
  \<open>quantity * unit_price\<close>; and whatever requests are served afterwards, one after the
  other or interleaved, that row stays in \<open>sales\<close> as it is. When no request runs
  between the lookup and the insert, that price is the product's price at the insert. The
  request has no field for \<open>total_amount\<close>: in every state reached from the empty
  database, every sale has \<open>total_amount = quantity * unit_price\<close>.
\<close>

theorem sale_captures_price:
  "(constraints_hold d0 \<and> sale_lookup d0 payload = Inr product \<and>
    sale_commit d1 new_id now payload product = (d1', Inr sale) \<longrightarrow>
      sales d1' = sales d1 @
        [\<lparr>s_id = sale_id sale, s_product_id = sale_productId sale,
          s_quantity = sale_quantity sale, s_unit_price = sale_unitPrice sale,
          s_total_amount = sale_totalAmount sale, s_sold_at = sale_soldAt sale\<rparr>] \<and>
      products d1' = products d1 \<and>
      sale_productId sale = req_productId payload \<and>
      sale_quantity sale = req_quantity payload \<and>
      req_productId payload \<in> set (map p_id (products d0)) \<and>
      (\<forall>p \<in> set (products d0).
         p_id p = req_productId payload \<longrightarrow> sale_unitPrice sale = p_price p) \<and>
      sale_totalAmount sale = sale_quantity sale * sale_unitPrice sale \<and>
      (\<forall>rs. \<lparr>s_id = sale_id sale, s_product_id = sale_productId sale,
              s_quantity = sale_quantity sale, s_unit_price = sale_unitPrice sale,
              s_total_amount = sale_totalAmount sale, s_sold_at = sale_soldAt sale\<rparr>
            \<in> set (sales (serve rs d1'))) \<and>
      (\<forall>tasks schedule.
           \<lparr>s_id = sale_id sale, s_product_id = sale_productId sale,
             s_quantity = sale_quantity sale, s_unit_price = sale_unitPrice sale,
             s_total_amount = sale_totalAmount sale, s_sold_at = sale_soldAt sale\<rparr>
            \<in> set (sales (fst (run_schedule tasks schedule d1'))))) \<and>
   (constraints_hold d \<and> record_sale d new_id now payload = (d', Inr sale) \<longrightarrow>
      (\<forall>p \<in> set (products d).
         p_id p = req_productId payload \<longrightarrow> sale_unitPrice sale = p_price p)) \<and>
   (\<forall>rs. list_all (\<lambda>s. s_total_amount s = s_quantity s * s_unit_price s)
           (sales (serve rs empty_db)))"
proof -
  have price_at_lookup: "sale_unitPrice sale = p_price p"
    if c: "constraints_hold d0" and l: "sale_lookup d0 payload = Inr product"
      and m: "sale_commit d1 new_id now payload product = (d1', Inr sale)"
      and p: "p \<in> set (products d0)" "p_id p = req_productId payload"
    for d0 d1 d1' product p
  proof -
    from l have f: "fetchProductById d0 (req_productId payload) = Some product"
      by (auto simp: sale_lookup_def split: if_splits option.splits)
    from f obtain p0 where p0: "p0 \<in> set (products d0)" "p_id p0 = req_productId payload"
      "prod_price product = p_price p0"
      by (elim fetchD) blast
    have "p = p0"
      using p p0 c by (auto simp: constraints_hold_def distinct_map inj_on_def)
    moreover from m have "sale_unitPrice sale = prod_price product"
      by (auto simp: sale_commit_def insert_sale_def Let_def toSale_def
          split: if_splits sum.splits)
    ultimately show ?thesis
      using p0(3) by simp
  qed
  have first: "sales d1' = sales d1 @
        [\<lparr>s_id = sale_id sale, s_product_id = sale_productId sale,
          s_quantity = sale_quantity sale, s_unit_price = sale_unitPrice sale,
          s_total_amount = sale_totalAmount sale, s_sold_at = sale_soldAt sale\<rparr>] \<and>
      products d1' = products d1 \<and>
      sale_productId sale = req_productId payload \<and>
      sale_quantity sale = req_quantity payload \<and>
      req_productId payload \<in> set (map p_id (products d0)) \<and>
      (\<forall>p \<in> set (products d0).
         p_id p = req_productId payload \<longrightarrow> sale_unitPrice sale = p_price p) \<and>
      sale_totalAmount sale = sale_quantity sale * sale_unitPrice sale \<and>
      (\<forall>rs. \<lparr>s_id = sale_id sale, s_product_id = sale_productId sale,
              s_quantity = sale_quantity sale, s_unit_price = sale_unitPrice sale,
              s_total_amount = sale_totalAmount sale, s_sold_at = sale_soldAt sale\<rparr>
            \<in> set (sales (serve rs d1'))) \<and>
      (\<forall>tasks schedule.
           \<lparr>s_id = sale_id sale, s_product_id = sale_productId sale,
             s_quantity = sale_quantity sale, s_unit_price = sale_unitPrice sale,
             s_total_amount = sale_totalAmount sale, s_sold_at = sale_soldAt sale\<rparr>
            \<in> set (sales (fst (run_schedule tasks schedule d1'))))"
    if h: "constraints_hold d0 \<and> sale_lookup d0 payload = Inr product \<and>
      sale_commit d1 new_id now payload product = (d1', Inr sale)"
  proof -
    from h have c: "constraints_hold d0" and l: "sale_lookup d0 payload = Inr product"
      and m: "sale_commit d1 new_id now payload product = (d1', Inr sale)"
      by simp_all
    from l have f: "fetchProductById d0 (req_productId payload) = Some product"
      by (auto simp: sale_lookup_def split: if_splits option.splits)
    from m have d1': "d1' = d1\<lparr>sales := sales d1 @
                 [\<lparr>s_id = new_id, s_product_id = req_productId payload,
                   s_quantity = req_quantity payload, s_unit_price = prod_price product,
                   s_total_amount = req_quantity payload * prod_price product,
                   s_sold_at = now\<rparr>]\<rparr>"
      and sale: "sale = \<lparr>sale_id = new_id, sale_productId = req_productId payload,
                 sale_quantity = req_quantity payload, sale_unitPrice = prod_price product,
                 sale_totalAmount = req_quantity payload * prod_price product,
                 sale_soldAt = now\<rparr>"
      by (auto simp: sale_commit_def insert_sale_def Let_def toSale_def
          split: if_splits sum.splits)
    have stored: "sales d1' = sales d1 @
        [\<lparr>s_id = sale_id sale, s_product_id = sale_productId sale,
          s_quantity = sale_quantity sale, s_unit_price = sale_unitPrice sale,
          s_total_amount = sale_totalAmount sale, s_sold_at = sale_soldAt sale\<rparr>]"
      by (simp add: d1' sale)
    have same: "products d1' = products d1"
      by (simp add: d1')
    have fields: "sale_productId sale = req_productId payload"
      "sale_quantity sale = req_quantity payload"
      "sale_totalAmount sale = sale_quantity sale * sale_unitPrice sale"
      by (simp_all add: sale)
    have known: "req_productId payload \<in> set (map p_id (products d0))"
      using fetch_facts(4)[OF f] .
    have price: "\<forall>p \<in> set (products d0).
         p_id p = req_productId payload \<longrightarrow> sale_unitPrice sale = p_price p"
      using price_at_lookup[OF c l m] by blast
    have mem: "\<lparr>s_id = sale_id sale, s_product_id = sale_productId sale,
          s_quantity = sale_quantity sale, s_unit_price = sale_unitPrice sale,
          s_total_amount = sale_totalAmount sale, s_sold_at = sale_soldAt sale\<rparr>
        \<in> set (sales d1')"
      by (simp add: stored)
    have later: "\<forall>rs. \<lparr>s_id = sale_id sale, s_product_id = sale_productId sale,
              s_quantity = sale_quantity sale, s_unit_price = sale_unitPrice sale,
              s_total_amount = sale_totalAmount sale, s_sold_at = sale_soldAt sale\<rparr>
            \<in> set (sales (serve rs d1'))"
      using serve_keeps_sale[OF mem] by blast
    have interleaved: "\<forall>tasks schedule.
           \<lparr>s_id = sale_id sale, s_product_id = sale_productId sale,
             s_quantity = sale_quantity sale, s_unit_price = sale_unitPrice sale,
             s_total_amount = sale_totalAmount sale, s_sold_at = sale_soldAt sale\<rparr>
            \<in> set (sales (fst (run_schedule tasks schedule d1')))"
      using run_schedule_keeps_sale[OF mem] by blast
    from stored same fields known price later interleaved show ?thesis
      by (intro conjI)
  qed
  have second: "\<forall>p \<in> set (products d).
         p_id p = req_productId payload \<longrightarrow> sale_unitPrice sale = p_price p"
    if h: "constraints_hold d \<and> record_sale d new_id now payload = (d', Inr sale)"
  proof -
    from h obtain product where l: "sale_lookup d payload = Inr product"
      and m: "sale_commit d new_id now payload product = (d', Inr sale)"
      by (auto simp: record_sale_def split: sum.splits)
    from h have c: "constraints_hold d" by simp
    show ?thesis
      using price_at_lookup[OF c l m] by blast
  qed
  have third: "\<forall>rs. list_all (\<lambda>s. s_total_amount s = s_quantity s * s_unit_price s)
           (sales (serve rs empty_db))"
  proof
    fix rs
    have "constraints_hold (serve rs empty_db)"
      by (intro serve_constraints constraints_empty)
    then show "list_all (\<lambda>s. s_total_amount s = s_quantity s * s_unit_price s)
           (sales (serve rs empty_db))"
      by (simp add: constraints_hold_def)
  qed
  show ?thesis
    by (rule conjI[OF impI[OF first] conjI[OF impI[OF second] third]])
qed

theorem sale_captures_price_witness:
  "constraints_hold shop_A \<and>
   sale_lookup shop_A two_of_A =
     Inr \<lparr>prod_id = 1, prod_name = ''A'', prod_price = 250, prod_totalStock = 5,
          prod_imagePath = None, prod_soldQuantity = 0, prod_remainingStock = 5\<rparr> \<and>
   map p_price (products shop_A) = [250] \<and>
   map p_price (products shop_A_dearer) = [300] \<and>
   sale_commit shop_A_dearer 10 201 two_of_A
       \<lparr>prod_id = 1, prod_name = ''A'', prod_price = 250, prod_totalStock = 5,
        prod_imagePath = None, prod_soldQuantity = 0, prod_remainingStock = 5\<rparr> =
     (shop_A_dearer\<lparr>sales := [\<lparr>s_id = 10, s_product_id = 1, s_quantity = 2,
                                 s_unit_price = 250, s_total_amount = 500,
                                 s_sold_at = 201\<rparr>]\<rparr>,
      Inr \<lparr>sale_id = 10, sale_productId = 1, sale_quantity = 2, sale_unitPrice = 250,
           sale_totalAmount = 500, sale_soldAt = 201\<rparr>) \<and>
   \<lparr>s_id = 10, s_product_id = 1, s_quantity = 2, s_unit_price = 250,
     s_total_amount = 500, s_sold_at = 201\<rparr>
     \<in> set (sales (serve [UpdateProduct 300 1 stock_to_one]
        (shop_A_dearer\<lparr>sales := [\<lparr>s_id = 10, s_product_id = 1, s_quantity = 2,
                                    s_unit_price = 250, s_total_amount = 500,
                                    s_sold_at = 201\<rparr>]\<rparr>)))"
proof -
  have l: "sale_lookup shop_A two_of_A =
     Inr \<lparr>prod_id = 1, prod_name = ''A'', prod_price = 250, prod_totalStock = 5,
          prod_imagePath = None, prod_soldQuantity = 0, prod_remainingStock = 5\<rparr>"
    by code_simp
  have p: "map p_price (products shop_A) = [250]"
    by (simp add: shop_A_def product_A_def)
  have p': "map p_price (products shop_A_dearer) = [300]"
    by code_simp
  have m: "sale_commit shop_A_dearer 10 201 two_of_A
       \<lparr>prod_id = 1, prod_name = ''A'', prod_price = 250, prod_totalStock = 5,
        prod_imagePath = None, prod_soldQuantity = 0, prod_remainingStock = 5\<rparr> =
     (shop_A_dearer\<lparr>sales := [\<lparr>s_id = 10, s_product_id = 1, s_quantity = 2,
                                 s_unit_price = 250, s_total_amount = 500,
                                 s_sold_at = 201\<rparr>]\<rparr>,
      Inr \<lparr>sale_id = 10, sale_productId = 1, sale_quantity = 2, sale_unitPrice = 250,
           sale_totalAmount = 500, sale_soldAt = 201\<rparr>)"
    by code_simp
  note t = sale_captures_price[of shop_A two_of_A _ shop_A_dearer 10 201]
  note u = mp[OF conjunct1[OF t] conjI[OF constraints_shop_A conjI[OF l m]]]
  note v = u[THEN conjunct2, THEN conjunct2, THEN conjunct2, THEN conjunct2,
      THEN conjunct2, THEN conjunct2, THEN conjunct2, THEN conjunct1]
  have k: "\<lparr>s_id = 10, s_product_id = 1, s_quantity = 2, s_unit_price = 250,
     s_total_amount = 500, s_sold_at = 201\<rparr>
     \<in> set (sales (serve [UpdateProduct 300 1 stock_to_one]
        (shop_A_dearer\<lparr>sales := [\<lparr>s_id = 10, s_product_id = 1, s_quantity = 2,
                                    s_unit_price = 250, s_total_amount = 500,
                                    s_sold_at = 201\<rparr>]\<rparr>)))"
    using spec[OF v, of "[UpdateProduct 300 1 stock_to_one]"]
    by (simp only: Sale.simps)
  show ?thesis
    using constraints_shop_A l p p' m k by (intro conjI) assumption+
qed

text \<open>
  C6 as stated fails. The handler looks product A up at 2.50; the price is set to 3.00
  before the insert; the sale is stored at 2.50 while the product is at 3.00 when the
  insert commits.
\<close>

theorem sale_captures_price_counterexample:
  "sale_lookup shop_A two_of_A =
     Inr \<lparr>prod_id = 1, prod_name = ''A'', prod_price = 250, prod_totalStock = 5,
          prod_imagePath = None, prod_soldQuantity = 0, prod_remainingStock = 5\<rparr> \<and>
   update_product shop_A 200 1 price_to_three =
     (shop_A_dearer,
      Inr (Some \<lparr>prod_id = 1, prod_name = ''A'', prod_price = 300, prod_totalStock = 5,
                 prod_imagePath = None, prod_soldQuantity = 0,
                 prod_remainingStock = 5\<rparr>)) \<and>
   map p_price (products shop_A_dearer) = [300] \<and>
   snd (sale_commit shop_A_dearer 10 201 two_of_A
          \<lparr>prod_id = 1, prod_name = ''A'', prod_price = 250, prod_totalStock = 5,
           prod_imagePath = None, prod_soldQuantity = 0, prod_remainingStock = 5\<rparr>) =
     Inr \<lparr>sale_id = 10, sale_productId = 1, sale_quantity = 2, sale_unitPrice = 250,
          sale_totalAmount = 500, sale_soldAt = 201\<rparr> \<and>
   map s_unit_price
     (sales (fst (sale_commit shop_A_dearer 10 201 two_of_A
          \<lparr>prod_id = 1, prod_name = ''A'', prod_price = 250, prod_totalStock = 5,
           prod_imagePath = None, prod_soldQuantity = 0, prod_remainingStock = 5\<rparr>))) = [250] \<and>
   map p_price
     (products (fst (sale_commit shop_A_dearer 10 201 two_of_A
          \<lparr>prod_id = 1, prod_name = ''A'', prod_price = 250, prod_totalStock = 5,
           prod_imagePath = None, prod_soldQuantity = 0, prod_remainingStock = 5\<rparr>))) = [300]"
  by (intro conjI; code_simp)

subsection \<open>Sales of the last units\<close>

text \<open>
  C3 (amended). The handler checks the stock and inserts the sale in two separate
  database calls. When \<open>N\<close> requests for one unit of a product with a stock of \<open>K\<close> and
  no sale yet are served one after the other (each with an unused sale id, on a database
  that satisfies its constraints), exactly \<open>min N K\<close> are answered with a sale, the other
  \<open>N - min N K\<close> with \<open>'Not enough stock'\<close>, and the remaining stock is
  \<open>max (K - N) 0\<close> at the end.
\<close>

theorem sequential_sales_of_one:
  assumes "constraints_hold d"
    and "fetchProductById d pid = Some product"
    and "prod_totalStock product = int K" "prod_soldQuantity product = 0"
    and "distinct (map fst ids)" "set (map fst ids) \<inter> set (map s_id (sales d)) = {}"
  shows "length (filter (\<lambda>r. \<not> isl r)
            (snd (sell_each d ids \<lparr>req_productId = pid, req_quantity = 1\<rparr>)))
          = min (length ids) K \<and>
         length (filter (\<lambda>r. r = Inl (InvalidRequest NotEnoughStock))
            (snd (sell_each d ids \<lparr>req_productId = pid, req_quantity = 1\<rparr>)))
          = length ids - min (length ids) K \<and>
         (\<exists>product'.
            fetchProductById (fst (sell_each d ids \<lparr>req_productId = pid, req_quantity = 1\<rparr>)) pid
              = Some product' \<and>
            prod_totalStock product' = int K \<and>
            prod_remainingStock product' = max (int K - int (length ids)) 0)"
proof -
  have "prod_remainingStock product = int K"
    using fetch_facts(2,3)[OF assms(2)] assms(3,4) by simp
  from sell_each_ones[OF assms(1,2) this assms(5,6)] assms(3) show ?thesis
    by simp
qed

theorem sequential_sales_of_one_witness:
  "constraints_hold shop_last_unit \<and>
   fetchProductById shop_last_unit 1 =
     Some \<lparr>prod_id = 1, prod_name = ''A'', prod_price = 250, prod_totalStock = 1,
           prod_imagePath = None, prod_soldQuantity = 0, prod_remainingStock = 1\<rparr> \<and>
   distinct (map fst [(10 :: uuid, 100 :: timestamp), (11, 101)]) \<and>
   set (map fst [(10 :: uuid, 100 :: timestamp), (11, 101)])
     \<inter> set (map s_id (sales shop_last_unit)) = {} \<and>
   length (filter (\<lambda>r. \<not> isl r)
     (snd (sell_each shop_last_unit [(10, 100), (11, 101)] one_of_A))) = 1 \<and>
   length (filter (\<lambda>r. r = Inl (InvalidRequest NotEnoughStock))
     (snd (sell_each shop_last_unit [(10, 100), (11, 101)] one_of_A))) = 1 \<and>
   (\<exists>product'.
      fetchProductById (fst (sell_each shop_last_unit [(10, 100), (11, 101)] one_of_A)) 1
        = Some product' \<and>
      prod_totalStock product' = 1 \<and> prod_remainingStock product' = 0)"
proof -
  have h3: "prod_totalStock \<lparr>prod_id = 1, prod_name = ''A'', prod_price = 250, prod_totalStock = 1,
           prod_imagePath = None, prod_soldQuantity = 0, prod_remainingStock = 1\<rparr> = int 1"
    and h4: "prod_soldQuantity \<lparr>prod_id = 1, prod_name = ''A'', prod_price = 250, prod_totalStock = 1,
           prod_imagePath = None, prod_soldQuantity = 0, prod_remainingStock = 1\<rparr> = 0"
    by simp_all
  have h5: "distinct (map fst [(10 :: uuid, 100 :: timestamp), (11, 101)])"
    by simp
  have h6: "set (map fst [(10 :: uuid, 100 :: timestamp), (11, 101)])
      \<inter> set (map s_id (sales shop_last_unit)) = {}"
    by (simp add: shop_last_unit_def)
  from sequential_sales_of_one[OF constraints_shop_last_unit fetch_shop_last_unit h3 h4 h5 h6]
    constraints_shop_last_unit fetch_shop_last_unit h5 h6
  show ?thesis
    by (simp add: one_of_A_def)
qed

text \<open>
  C3 as stated fails: two requests for the last unit of product A, each advanced to its
  lookup before either inserts, both fetch a remaining stock of 1, both pass the check and
  both are answered with a sale; the remaining stock is then -1.
\<close>

theorem concurrent_sales_counterexample:
  "fetchProductById shop_last_unit 1 =
     Some \<lparr>prod_id = 1, prod_name = ''A'', prod_price = 250, prod_totalStock = 1,
           prod_imagePath = None, prod_soldQuantity = 0, prod_remainingStock = 1\<rparr> \<and>
   run_schedule two_buyers [0, 1, 0, 1] shop_last_unit =
     (\<lparr>products = [product_A\<lparr>p_total_stock := 1\<rparr>],
       sales = [\<lparr>s_id = 10, s_product_id = 1, s_quantity = 1, s_unit_price = 250,
                 s_total_amount = 250, s_sold_at = 100\<rparr>,
                \<lparr>s_id = 11, s_product_id = 1, s_quantity = 1, s_unit_price = 250,
                 s_total_amount = 250, s_sold_at = 101\<rparr>]\<rparr>,
      [Responded (Inr \<lparr>sale_id = 10, sale_productId = 1, sale_quantity = 1,
                       sale_unitPrice = 250, sale_totalAmount = 250, sale_soldAt = 100\<rparr>),
       Responded (Inr \<lparr>sale_id = 11, sale_productId = 1, sale_quantity = 1,
                       sale_unitPrice = 250, sale_totalAmount = 250, sale_soldAt = 101\<rparr>)]) \<and>
   map r_remaining_stock
     (product_read_model (fst (run_schedule two_buyers [0, 1, 0, 1] shop_last_unit))) = [-1]"
  by code_simp

subsection \<open>Pagination defaults and refusals\<close>



subsection \<open>The product listing\<close>

text \<open>
  C5. For a page of at least 1 and a limit from 1 to 100, \<open>GET /products\<close> answers with
  a page and a total: the page is the slice of \<open>limit\<close> rows at offset
  \<open>(page - 1) * limit\<close> of the listing of the view in name order; its names ascend;
  every item is a product of the table whose \<open>deleted_at\<close> is not set; every such
  product is in the listing, which has as many rows as there are such products; and the
  total is their number.
\<close>

theorem list_products_catalog:
  assumes "1 \<le> page" "1 \<le> limit" "limit \<le> 100"
  shows "\<exists>resp.
      list_products d \<lparr>q_page = Some (Whole page), q_limit = Some (Whole limit)\<rparr> = Inr resp \<and>
      items resp =
        take (nat limit) (drop (nat ((page - 1) * limit))
          (map toProduct (sort_key r_name (product_read_model d)))) \<and>
      sorted (map prod_name (items resp)) \<and>
      sorted (map prod_name (map toProduct (sort_key r_name (product_read_model d)))) \<and>
      length (items resp) \<le> nat limit \<and>
      (\<forall>x \<in> set (items resp). \<exists>p \<in> set (products d).
          p_deleted_at p = None \<and> prod_id x = p_id p \<and> prod_name x = p_name p \<and>
          prod_price x = p_price p \<and> prod_totalStock x = p_total_stock p \<and>
          prod_imagePath x = p_image_path p) \<and>
      (\<forall>p \<in> set (live_products d).
          p_id p \<in> set (map prod_id (map toProduct (sort_key r_name (product_read_model d))))) \<and>
      length (map toProduct (sort_key r_name (product_read_model d))) = length (live_products d) \<and>
      total resp = length (live_products d)"
proof -
  let ?all = "map toProduct (sort_key r_name (product_read_model d))"
  let ?resp = "\<lparr>items = take (nat limit) (drop (nat ((page - 1) * limit)) ?all),
                total = length (live_products d)\<rparr>"
  have parse: "paginationSchema \<lparr>q_page = Some (Whole page), q_limit = Some (Whole limit)\<rparr>
      = Some (page, limit)"
    using assms by (simp add: paginationSchema_def coerced_int_def)
  have len: "length (product_read_model d) = length (live_products d)"
    by (simp add: product_read_model_def live_products_def)
  have resp: "list_products d \<lparr>q_page = Some (Whole page), q_limit = Some (Whole limit)\<rparr>
      = Inr ?resp"
    using parse len
    by (simp add: list_products_def range_rows_def Let_def take_map drop_map)
  have names: "map prod_name ?all = map r_name (sort_key r_name (product_read_model d))"
    by (simp add: toProduct_def comp_def)
  have sorted_all: "sorted (map prod_name ?all)"
    unfolding names by (rule sorted_sort_key)
  have "map prod_name (items ?resp)
      = take (nat limit) (drop (nat ((page - 1) * limit)) (map prod_name ?all))"
    by (simp add: take_map drop_map)
  then have sorted_items: "sorted (map prod_name (items ?resp))"
    using sorted_all by (simp only: sorted_wrt_take sorted_wrt_drop)
  have members: "\<exists>p \<in> set (products d).
          p_deleted_at p = None \<and> prod_id x = p_id p \<and> prod_name x = p_name p \<and>
          prod_price x = p_price p \<and> prod_totalStock x = p_total_stock p \<and>
          prod_imagePath x = p_image_path p" if "x \<in> set (items ?resp)" for x
  proof -
    from that have "x \<in> set (drop (nat ((page - 1) * limit)) ?all)"
      by (simp del: set_map) (erule in_set_takeD)
    then have "x \<in> set ?all"
      by (rule in_set_dropD)
    then obtain row where "row \<in> set (product_read_model d)" "x = toProduct row"
      by auto
    then show ?thesis
      by (elim view_rowD) (auto simp: toProduct_def)
  qed
  have complete: "p_id p \<in> set (map prod_id ?all)" if "p \<in> set (live_products d)" for p
  proof -
    have "map prod_id ?all = map r_id (sort_key r_name (product_read_model d))"
      by (simp add: toProduct_def comp_def)
    then have "set (map prod_id ?all) = r_id ` set (product_read_model d)"
      by simp
    also have "\<dots> = p_id ` set (live_products d)"
      by (auto simp: product_read_model_def live_products_def image_iff)
    finally show ?thesis using that by blast
  qed
  have "length (items ?resp) \<le> nat limit"
    by simp
  with resp sorted_items sorted_all members complete len show ?thesis
    by (intro exI[of _ ?resp]) simp
qed


theorem list_products_catalog_witness:
  "(1 :: int) \<le> 1 \<and> (1 :: int) \<le> 100 \<and>
   list_products bakery first_page_of_one =
     Inr \<lparr>items = [\<lparr>prod_id = 1, prod_name = ''Apple pie'', prod_price = 450,
                      prod_totalStock = 4, prod_imagePath = None, prod_soldQuantity = 0,
                      prod_remainingStock = 4\<rparr>],
          total = 2\<rparr> \<and>
   map p_name (live_products bakery) = [''Bun'', ''Apple pie''] \<and>
   (\<exists>resp. list_products bakery first_page_of_one = Inr resp \<and>
      sorted (map prod_name (items resp)) \<and> total resp = length (live_products bakery))"
proof -
  have e: "list_products bakery first_page_of_one =
     Inr \<lparr>items = [\<lparr>prod_id = 1, prod_name = ''Apple pie'', prod_price = 450,
                      prod_totalStock = 4, prod_imagePath = None, prod_soldQuantity = 0,
                      prod_remainingStock = 4\<rparr>],
          total = 2\<rparr>"
    by code_simp
  have l: "map p_name (live_products bakery) = [''Bun'', ''Apple pie'']"
    by (simp add: live_products_def bakery_def)
  have h: "(1 :: int) \<le> 1" "(1 :: int) \<le> 100"
    by simp_all
  from list_products_catalog[OF h(1) h(1) h(2), of bakery]
  have "\<exists>resp. list_products bakery first_page_of_one = Inr resp \<and>
      sorted (map prod_name (items resp)) \<and> total resp = length (live_products bakery)"
    unfolding first_page_of_one_def by blast
  with e l h show ?thesis
    by blast
qed

subsection \<open>Best sellers of an empty window\<close>

text \<open>
  C7. When no sale has its \<open>sold_at\<close> in the window (either bound may be absent), the
  SQL function returns the object with both entries null, and \<open>GET /stats/best-sellers\<close>
  answers with it: a successful response, not an error.
\<close>

theorem best_sellers_empty_window:
  "(\<forall>s \<in> set (sales d). \<not> in_window from_ts to_ts s) \<longrightarrow>
     get_best_sellers d from_ts to_ts = \<lparr>bestByQuantity = None, bestByRevenue = None\<rparr> \<and>
     best_sellers d \<lparr>sr_from = map_option WellFormed from_ts,
                      sr_to = map_option WellFormed to_ts\<rparr>
       = Inr \<lparr>bestByQuantity = None, bestByRevenue = None\<rparr>"
proof
  assume "\<forall>s \<in> set (sales d). \<not> in_window from_ts to_ts s"
  then have "filter (in_window from_ts to_ts) (sales d) = []"
    by (simp add: filter_empty_conv)
  then have "filtered_sales d from_ts to_ts = []"
    by (simp add: filtered_sales_def)
  then have g: "get_best_sellers d from_ts to_ts = \<lparr>bestByQuantity = None, bestByRevenue = None\<rparr>"
    by (simp add: get_best_sellers_def aggregated_def best_by_quantity_def best_by_revenue_def
        first_row_def)
  have "best_sellers d \<lparr>sr_from = map_option WellFormed from_ts,
                      sr_to = map_option WellFormed to_ts\<rparr>
       = Inr (get_best_sellers d from_ts to_ts)"
    by (cases from_ts; cases to_ts) (simp_all add: best_sellers_def optional_field_def)
  with g show "get_best_sellers d from_ts to_ts = \<lparr>bestByQuantity = None, bestByRevenue = None\<rparr> \<and>
     best_sellers d \<lparr>sr_from = map_option WellFormed from_ts,
                      sr_to = map_option WellFormed to_ts\<rparr>
       = Inr \<lparr>bestByQuantity = None, bestByRevenue = None\<rparr>"
    by simp
qed

theorem best_sellers_empty_window_witness:
  "list_all (\<lambda>s. \<not> in_window (Some 200) None s) (sales tied_bakery) \<and>
   sales tied_bakery \<noteq> [] \<and>
   best_sellers tied_bakery \<lparr>sr_from = Some (WellFormed 200), sr_to = None\<rparr>
     = Inr \<lparr>bestByQuantity = None, bestByRevenue = None\<rparr>"
proof -
  have h: "list_all (\<lambda>s. \<not> in_window (Some 200) None s) (sales tied_bakery)"
    by (simp add: tied_bakery_def in_window_def)
  have n: "sales tied_bakery \<noteq> []"
    by (simp add: tied_bakery_def)
  from h have "\<forall>s \<in> set (sales tied_bakery). \<not> in_window (Some 200) None s"
    by (simp add: list_all_iff)
  with best_sellers_empty_window[of tied_bakery "Some 200" None]
  have "best_sellers tied_bakery \<lparr>sr_from = Some (WellFormed 200), sr_to = None\<rparr>
     = Inr \<lparr>bestByQuantity = None, bestByRevenue = None\<rparr>"
    by simp
  with h n show ?thesis
    by blast
qed

subsection \<open>Best sellers and ties\<close>

text \<open>
  C8. On a database that satisfies its constraints, when some sale is in the window, both
  entries are present. The product of \<open>bestByQuantity\<close> has a sale in the window, its
  \<open>soldQuantity\<close> is its summed quantity over the window, no product with a sale in the
  window has a greater sum, and every such product with the same sum has an id at least as
  large. The same holds of \<open>bestByRevenue\<close> with the summed \<open>total_amount\<close>.
\<close>

theorem best_sellers_tie_break:
  assumes "constraints_hold d" and "s0 \<in> set (sales d)" and "in_window from_ts to_ts s0"
  shows "\<exists>bq br.
     bestByQuantity (get_best_sellers d from_ts to_ts) = Some bq \<and>
     bestByRevenue (get_best_sellers d from_ts to_ts) = Some br \<and>
     (\<exists>s \<in> set (sales d). in_window from_ts to_ts s \<and> s_product_id s = bq_productId bq) \<and>
     bq_soldQuantity bq = window_quantity d from_ts to_ts (bq_productId bq) \<and>
     (\<forall>s \<in> set (sales d). in_window from_ts to_ts s \<longrightarrow>
        window_quantity d from_ts to_ts (s_product_id s) \<le> bq_soldQuantity bq \<and>
        (window_quantity d from_ts to_ts (s_product_id s) = bq_soldQuantity bq \<longrightarrow>
           bq_productId bq \<le> s_product_id s)) \<and>
     (\<exists>s \<in> set (sales d). in_window from_ts to_ts s \<and> s_product_id s = br_productId br) \<and>
     br_totalRevenue br = window_revenue d from_ts to_ts (br_productId br) \<and>
     (\<forall>s \<in> set (sales d). in_window from_ts to_ts s \<longrightarrow>
        window_revenue d from_ts to_ts (s_product_id s) \<le> br_totalRevenue br \<and>
        (window_revenue d from_ts to_ts (s_product_id s) = br_totalRevenue br \<longrightarrow>
           br_productId br \<le> s_product_id s))"
proof -
  let ?fs = "filtered_sales d from_ts to_ts"
  let ?agg = "aggregated ?fs"
  let ?row = "\<lambda>pid. aggregate_group pid (filter (\<lambda>f. s_product_id (fs_sale f) = pid) ?fs)"
  note rows = aggregated_rows[OF assms(1), of _ from_ts to_ts]
  note sums = aggregate_group_sums[OF assms(1), of _ from_ts to_ts]
  have "?row (s_product_id s0) \<in> set ?agg"
    using rows assms(2,3) by blast
  then have ne: "?agg \<noteq> []"
    by auto
  from first_row_sort_key[OF ne, of "\<lambda>a. (- a_sold_quantity a, a_product_id a)"]
  obtain q where q: "best_by_quantity ?agg = Some q" "q \<in> set ?agg"
    "\<forall>x \<in> set ?agg. (- a_sold_quantity q, a_product_id q) \<le> (- a_sold_quantity x, a_product_id x)"
    unfolding best_by_quantity_def by blast
  from first_row_sort_key[OF ne, of "\<lambda>a. (- a_total_revenue a, a_product_id a)"]
  obtain r where r: "best_by_revenue ?agg = Some r" "r \<in> set ?agg"
    "\<forall>x \<in> set ?agg. (- a_total_revenue r, a_product_id r) \<le> (- a_total_revenue x, a_product_id x)"
    unfolding best_by_revenue_def by blast
  from q(2) rows obtain sq where sq: "sq \<in> set (sales d)" "in_window from_ts to_ts sq"
    "q = ?row (s_product_id sq)" by blast
  from r(2) rows obtain sr where sr: "sr \<in> set (sales d)" "in_window from_ts to_ts sr"
    "r = ?row (s_product_id sr)" by blast
  have qid: "a_product_id q = s_product_id sq"
    and qsum: "a_sold_quantity q = window_quantity d from_ts to_ts (s_product_id sq)"
    using sums(1,2)[of "s_product_id sq"] sq(3) by simp_all
  have rid: "a_product_id r = s_product_id sr"
    and rsum: "a_total_revenue r = window_revenue d from_ts to_ts (s_product_id sr)"
    using sums(1,3)[of "s_product_id sr"] sr(3) by simp_all
  have qbest: "window_quantity d from_ts to_ts (s_product_id s) \<le> a_sold_quantity q \<and>
        (window_quantity d from_ts to_ts (s_product_id s) = a_sold_quantity q \<longrightarrow>
           a_product_id q \<le> s_product_id s)"
    if "s \<in> set (sales d)" "in_window from_ts to_ts s" for s
  proof -
    have "?row (s_product_id s) \<in> set ?agg"
      using rows that by blast
    with q(3) have "(- a_sold_quantity q, a_product_id q)
        \<le> (- a_sold_quantity (?row (s_product_id s)), a_product_id (?row (s_product_id s)))"
      by blast
    then show ?thesis
      using sums(1,2)[of "s_product_id s"] by (auto simp: less_eq_prod_def)
  qed
  have rbest: "window_revenue d from_ts to_ts (s_product_id s) \<le> a_total_revenue r \<and>
        (window_revenue d from_ts to_ts (s_product_id s) = a_total_revenue r \<longrightarrow>
           a_product_id r \<le> s_product_id s)"
    if "s \<in> set (sales d)" "in_window from_ts to_ts s" for s
  proof -
    have "?row (s_product_id s) \<in> set ?agg"
      using rows that by blast
    with r(3) have "(- a_total_revenue r, a_product_id r)
        \<le> (- a_total_revenue (?row (s_product_id s)), a_product_id (?row (s_product_id s)))"
      by blast
    then show ?thesis
      using sums(1,3)[of "s_product_id s"] by (auto simp: less_eq_prod_def)
  qed
  let ?bq = "\<lparr>bq_productId = a_product_id q, bq_name = a_name q, bq_price = a_price q,
              bq_soldQuantity = a_sold_quantity q\<rparr>"
  let ?br = "\<lparr>br_productId = a_product_id r, br_name = a_name r, br_price = a_price r,
              br_soldQuantity = a_sold_quantity r, br_totalRevenue = a_total_revenue r\<rparr>"
  have gq: "bestByQuantity (get_best_sellers d from_ts to_ts) = Some ?bq"
    using q(1) by (simp add: get_best_sellers_def Let_def)
  have gr: "bestByRevenue (get_best_sellers d from_ts to_ts) = Some ?br"
    using r(1) by (simp add: get_best_sellers_def Let_def)
  have q1: "\<exists>s \<in> set (sales d). in_window from_ts to_ts s \<and> s_product_id s = bq_productId ?bq"
    using sq(1,2) qid by auto
  have r1: "\<exists>s \<in> set (sales d). in_window from_ts to_ts s \<and> s_product_id s = br_productId ?br"
    using sr(1,2) rid by auto
  have q2: "bq_soldQuantity ?bq = window_quantity d from_ts to_ts (bq_productId ?bq)"
    using qsum qid by simp
  have r2: "br_totalRevenue ?br = window_revenue d from_ts to_ts (br_productId ?br)"
    using rsum rid by simp
  have q3: "\<forall>s \<in> set (sales d). in_window from_ts to_ts s \<longrightarrow>
        window_quantity d from_ts to_ts (s_product_id s) \<le> bq_soldQuantity ?bq \<and>
        (window_quantity d from_ts to_ts (s_product_id s) = bq_soldQuantity ?bq \<longrightarrow>
           bq_productId ?bq \<le> s_product_id s)"
    using qbest by simp
  have r3: "\<forall>s \<in> set (sales d). in_window from_ts to_ts s \<longrightarrow>
        window_revenue d from_ts to_ts (s_product_id s) \<le> br_totalRevenue ?br \<and>
        (window_revenue d from_ts to_ts (s_product_id s) = br_totalRevenue ?br \<longrightarrow>
           br_productId ?br \<le> s_product_id s)"
    using rbest by simp
  from gq gr q1 q2 q3 r1 r2 r3 show ?thesis
    by (intro exI[of _ ?bq] exI[of _ ?br] conjI)
qed

theorem best_sellers_tie_break_witness:
  "constraints_hold tied_bakery \<and>
   window_quantity tied_bakery None None 1 = 3 \<and>
   window_quantity tied_bakery None None 2 = 3 \<and>
   window_revenue tied_bakery None None 1 = 360 \<and>
   window_revenue tied_bakery None None 2 = 360 \<and>
   get_best_sellers tied_bakery None None =
     \<lparr>bestByQuantity =
        Some \<lparr>bq_productId = 1, bq_name = ''Apple pie'', bq_price = 120, bq_soldQuantity = 3\<rparr>,
      bestByRevenue =
        Some \<lparr>br_productId = 1, br_name = ''Apple pie'', br_price = 120, br_soldQuantity = 3,
              br_totalRevenue = 360\<rparr>\<rparr> \<and>
   (\<exists>bq br.
      bestByQuantity (get_best_sellers tied_bakery None None) = Some bq \<and>
      bestByRevenue (get_best_sellers tied_bakery None None) = Some br \<and>
      bq_productId bq \<le> 2 \<and> br_productId br \<le> 2)"
proof -
  have wq: "window_quantity tied_bakery None None 1 = 3"
    "window_quantity tied_bakery None None 2 = 3"
    by (simp_all add: window_quantity_def tied_bakery_def in_window_def)
  have wr: "window_revenue tied_bakery None None 1 = 360"
    "window_revenue tied_bakery None None 2 = 360"
    by (simp_all add: window_revenue_def tied_bakery_def in_window_def)
  have e: "get_best_sellers tied_bakery None None =
     \<lparr>bestByQuantity =
        Some \<lparr>bq_productId = 1, bq_name = ''Apple pie'', bq_price = 120, bq_soldQuantity = 3\<rparr>,
      bestByRevenue =
        Some \<lparr>br_productId = 1, br_name = ''Apple pie'', br_price = 120, br_soldQuantity = 3,
              br_totalRevenue = 360\<rparr>\<rparr>"
    by code_simp
  define bun where "bun = \<lparr>s_id = 10, s_product_id = 2, s_quantity = 3, s_unit_price = 120,
          s_total_amount = 360, s_sold_at = 100\<rparr>"
  have s: "bun \<in> set (sales tied_bakery)" "in_window None None bun" "s_product_id bun = 2"
    by (simp_all add: tied_bakery_def in_window_def bun_def)
  from best_sellers_tie_break[OF constraints_tied_bakery s(1,2)]
  obtain bq br where b:
    "bestByQuantity (get_best_sellers tied_bakery None None) = Some bq"
    "bestByRevenue (get_best_sellers tied_bakery None None) = Some br"
    "\<forall>s \<in> set (sales tied_bakery). in_window None None s \<longrightarrow>
        window_quantity tied_bakery None None (s_product_id s) \<le> bq_soldQuantity bq \<and>
        (window_quantity tied_bakery None None (s_product_id s) = bq_soldQuantity bq \<longrightarrow>
           bq_productId bq \<le> s_product_id s)"
    "\<forall>s \<in> set (sales tied_bakery). in_window None None s \<longrightarrow>
        window_revenue tied_bakery None None (s_product_id s) \<le> br_totalRevenue br \<and>
        (window_revenue tied_bakery None None (s_product_id s) = br_totalRevenue br \<longrightarrow>
           br_productId br \<le> s_product_id s)"
    by blast
  from b(1,2) e have "bq_soldQuantity bq = 3" "br_totalRevenue br = 360"
    by auto
  with b(3,4) s wq(2) wr(2) have "bq_productId bq \<le> 2" "br_productId br \<le> 2"
    by auto
  with b(1,2) have "\<exists>bq br.
      bestByQuantity (get_best_sellers tied_bakery None None) = Some bq \<and>
      bestByRevenue (get_best_sellers tied_bakery None None) = Some br \<and>
      bq_productId bq \<le> 2 \<and> br_productId br \<le> 2"
    by blast
  with constraints_tied_bakery wq wr e show ?thesis
    by blast
qed

end
